theory Spec2Isabelle
  imports
    Main
    "HOL-Library.Char_ord"
    "HOL-Library.List_Lexorder"
    "HOL-Library.Multiset"
    "HOL-Library.Option_ord"
    "HOL-Library.Product_Lexorder"
begin

section \<open>Python values used by the pipeline\<close>

text \<open>
  Exceptions that the modelled functions of \<^verbatim>\<open>backend/epgs.py\<close> can raise.
  \<open>FetchError\<close> stands for what \<^verbatim>\<open>download_xmltv_epg\<close> raises (connection
  failure, \<^verbatim>\<open>raise_for_status\<close>), \<open>ParseError\<close> for what ElementTree raises on a
  document that is not well formed, \<open>ProviderError\<close> for a failing metadata request.
  The others are the Python built-ins of the same name.
\<close>

datatype error =
  FetchError | ParseError | AttributeError | TypeError | KeyError | IndexError | ProviderError

text \<open>Truth value of an optional string: \<^verbatim>\<open>None\<close> and \<^verbatim>\<open>''\<close> are false.\<close>

definition truthy :: "string option \<Rightarrow> bool" where
  "truthy s = (case s of None \<Rightarrow> False | Some v \<Rightarrow> v \<noteq> [])"

text \<open>\<^verbatim>\<open>str.lower\<close> on the code points below 256.\<close>

definition lower_char :: "char \<Rightarrow> char" where
  "lower_char c =
     (let n = (of_char c :: nat)
      in if (65 \<le> n \<and> n \<le> 90) \<or> (192 \<le> n \<and> n \<le> 222 \<and> n \<noteq> 215)
         then char_of (n + 32) else c)"

definition lower :: "string \<Rightarrow> string" where
  "lower s = map lower_char s"

text \<open>\<^verbatim>\<open>str.isspace\<close> on the code points below 256, and \<^verbatim>\<open>str.strip\<close>.\<close>

definition isspace :: "char \<Rightarrow> bool" where
  "isspace c =
     (let n = (of_char c :: nat)
      in (9 \<le> n \<and> n \<le> 13) \<or> (28 \<le> n \<and> n \<le> 32) \<or> n = 133 \<or> n = 160)"

definition strip :: "string \<Rightarrow> string" where
  "strip s = rev (dropWhile isspace (rev (dropWhile isspace s)))"

text \<open>\<^verbatim>\<open>str(n)\<close> for an integer: decimal digits, with a minus sign below zero.\<close>

fun str_nat :: "nat \<Rightarrow> string" where
  "str_nat n =
     (if n < 10 then [char_of (48 + n)]
      else str_nat (n div 10) @ [char_of (48 + n mod 10)])"

definition str_int :: "int \<Rightarrow> string" where
  "str_int i = (if i < 0 then CHR ''-'' # str_nat (nat (- i)) else str_nat (nat i))"

text \<open>\<^verbatim>\<open>str(x)\<close> and f-string formatting of an optional value: \<^verbatim>\<open>None\<close> prints as "None".\<close>

definition str_opt :: "string option \<Rightarrow> string" where
  "str_opt s = (case s of None \<Rightarrow> ''None'' | Some v \<Rightarrow> v)"

definition str_int_opt :: "int option \<Rightarrow> string" where
  "str_int_opt i = (case i of None \<Rightarrow> ''None'' | Some v \<Rightarrow> str_int v)"

section \<open>XML elements\<close>

text \<open>
  An \<^verbatim>\<open>xml.etree.ElementTree.Element\<close>: tag, attributes, text and children.
\<close>

datatype xml =
  Element (tag: string) (attrib: "(string \<times> string) list") (text_of: "string option")
    (children: "xml list")

definition attrib_get :: "xml \<Rightarrow> string \<Rightarrow> string option" where
  "attrib_get e k = map_of (attrib e) k"

text \<open>\<^verbatim>\<open>Element.find(tag)\<close>: the first child with that tag.\<close>

definition find_elem :: "xml \<Rightarrow> string \<Rightarrow> xml option" where
  "find_elem e t = List.find (\<lambda>c. tag c = t) (children e)"

text \<open>\<^verbatim>\<open>Element.findall(tag)\<close>: the children with that tag, in document order.\<close>

definition findall :: "xml \<Rightarrow> string \<Rightarrow> xml list" where
  "findall e t = filter (\<lambda>c. tag c = t) (children e)"

text \<open>
  \<^verbatim>\<open>Element.findtext(tag, default=None)\<close>: the text of the first child with that tag,
  the empty string when that child has no text, \<^verbatim>\<open>None\<close> when there is no such child.
\<close>

definition findtext :: "xml \<Rightarrow> string \<Rightarrow> string option" where
  "findtext e t =
     (case find_elem e t of
        None \<Rightarrow> None
      | Some c \<Rightarrow> Some (case text_of c of None \<Rightarrow> [] | Some s \<Rightarrow> s))"

text \<open>\<^verbatim>\<open>iterfind('.//tag')\<close>: every descendant with that tag, in document order.\<close>

fun descendants :: "xml \<Rightarrow> xml list" where
  "descendants (Element t a x cs) = concat (map (\<lambda>c. c # descendants c) cs)"

definition iterfind :: "xml \<Rightarrow> string \<Rightarrow> xml list" where
  "iterfind root t = filter (\<lambda>c. tag c = t) (descendants root)"

text \<open>
  A downloaded XMLTV file, after \<^verbatim>\<open>try_unzip\<close>. The file is read through two parser
  entry points, \<^verbatim>\<open>ET.fromstring\<close> on the decoded text (in \<^verbatim>\<open>store_epg_channels\<close>) and
  \<^verbatim>\<open>ET.parse\<close> on the path (in \<^verbatim>\<open>store_epg_programmes\<close>); the file is represented by
  what each returns, \<open>None\<close> when it raises.
\<close>

record xmltv_file =
  et_fromstring :: "xml option"
  et_parse :: "xml option"

datatype download = FetchFailed | Fetched xmltv_file

section \<open>Tables of \<^verbatim>\<open>backend/models.py\<close>\<close>

record epg =
  epg_id :: int
  epg_enabled :: bool
  epg_name :: "string option"
  epg_url :: "string option"

record epg_channel =
  ec_id :: int
  ec_epg_id :: int
  ec_channel_id :: "string option"
  ec_name :: "string option"
  ec_icon_url :: string

text \<open>
  A row of \<^verbatim>\<open>epg_channel_programmes\<close>. \<open>pr_id\<close> is \<open>None\<close> for an object that has not
  been saved yet. The three JSON columns hold the value that \<^verbatim>\<open>json.dumps\<close> wrote and
  \<^verbatim>\<open>json.loads\<close> reads back: a list of strings, or for the credits a dictionary in
  insertion order.
\<close>

record programme =
  pr_id :: "int option"
  pr_epg_channel_id :: int
  pr_channel_id :: "string option"
  pr_title :: "string option"
  pr_sub_title :: "string option"
  pr_desc :: "string option"
  pr_series_desc :: "string option"
  pr_icon_url :: "string option"
  pr_country :: "string option"
  pr_start :: "string option"
  pr_stop :: "string option"
  pr_start_timestamp :: "string option"
  pr_stop_timestamp :: "string option"
  pr_categories :: "string list option"
  pr_url :: "string option"
  pr_date :: "string option"
  pr_length :: "string option"
  pr_keywords :: "string list option"
  pr_credits :: "(string \<times> string list) list option"
  pr_episode_num_system :: "string option"
  pr_episode_num_value :: "string option"
  pr_rating_system :: "string option"
  pr_rating_value :: "string option"
  pr_star_rating :: "string option"
  pr_video_present :: "bool option"
  pr_video_colour :: "bool option"
  pr_video_aspect :: "string option"
  pr_video_quality :: "string option"
  pr_audio_present :: "bool option"
  pr_audio_stereo :: "string option"
  pr_subtitles_type :: "string option"
  pr_audio_described :: "bool option"
  pr_is_premiere :: "bool option"
  pr_is_new :: "bool option"
  pr_previously_shown :: "string option"
  pr_review_type :: "string option"
  pr_review_value :: "string option"

text \<open>A row of \<^verbatim>\<open>channels\<close> with the names of its tags (\<^verbatim>\<open>result.tags\<close>).\<close>

record channel =
  ch_id :: int
  ch_enabled :: bool
  ch_name :: "string option"
  ch_logo_base64 :: "string option"
  ch_number :: "int option"
  ch_guide_id :: "int option"
  ch_guide_channel_id :: "string option"
  ch_tags :: "string list"

record db =
  epgs :: "epg list"
  epg_channels :: "epg_channel list"
  epg_channel_programmes :: "programme list"
  channels :: "channel list"

text \<open>
  The next value of an integer primary key: one more than the largest key in the table
  (SQLite's rowid allocation, \<^verbatim>\<open>config.py\<close> configures an SQLite database).
\<close>

definition next_id :: "int list \<Rightarrow> int" where
  "next_id ids = fold max ids 0 + 1"

section \<open>Ingestion of one source\<close>

text \<open>
  \<^verbatim>\<open>clear_epg_channel_data\<close>: one committed transaction that deletes the programmes and
  the channels of the source.
\<close>

definition clear_epg_channel_data :: "int \<Rightarrow> db \<Rightarrow> db" where
  "clear_epg_channel_data e d =
     (let channel_ids = map ec_id (filter (\<lambda>c. ec_epg_id c = e) (epg_channels d))
      in if channel_ids \<noteq> []
         then d\<lparr>epg_channel_programmes :=
                  filter (\<lambda>p. pr_epg_channel_id p \<notin> set channel_ids) (epg_channel_programmes d),
                epg_channels := filter (\<lambda>c. ec_id c \<notin> set channel_ids) (epg_channels d)\<rparr>
         else d)"

text \<open>The dictionary built for one \<^verbatim>\<open><channel>\<close> element in \<^verbatim>\<open>store_epg_channels\<close>.\<close>

record channel_item =
  it_channel_id :: "string option"
  it_name :: "string option"
  it_icon_url :: string

definition channel_item :: "xml \<Rightarrow> error + channel_item" where
  "channel_item channel =
     (case find_elem channel ''display-name'' of
        None \<Rightarrow> Inl AttributeError
      | Some display_name \<Rightarrow>
          Inr \<lparr>it_channel_id = attrib_get channel ''id'',
               it_name = text_of display_name,
               it_icon_url =
                 (case find_elem channel ''icon'' of
                    None \<Rightarrow> []
                  | Some icon_elem \<Rightarrow>
                      (case attrib_get icon_elem ''src'' of None \<Rightarrow> [] | Some s \<Rightarrow> s))\<rparr>)"

fun channel_items :: "xml list \<Rightarrow> error + channel_item list" where
  "channel_items [] = Inr []"
| "channel_items (c # cs) =
     (case channel_item c of
        Inl err \<Rightarrow> Inl err
      | Inr it \<Rightarrow>
          (case channel_items cs of Inl err \<Rightarrow> Inl err | Inr its \<Rightarrow> Inr (it # its)))"

text \<open>
  The bulk insert of the channel items: each row takes the next primary key. An empty
  list of items inserts nothing.
\<close>

fun insert_epg_channels :: "int \<Rightarrow> channel_item list \<Rightarrow> epg_channel list \<Rightarrow> epg_channel list" where
  "insert_epg_channels e [] table = table"
| "insert_epg_channels e (it # its) table =
     insert_epg_channels e its
       (table @ [\<lparr>ec_id = next_id (map ec_id table), ec_epg_id = e,
                  ec_channel_id = it_channel_id it, ec_name = it_name it,
                  ec_icon_url = it_icon_url it\<rparr>])"

text \<open>
  \<^verbatim>\<open>store_epg_channels\<close>. The file argument is \<open>None\<close> when the cached file does not
  exist; the function then returns \<^verbatim>\<open>False\<close>, here \<open>Inr None\<close>. Everything after the
  parse happens in one transaction: an exception while the items are collected leaves
  the table as it was.
\<close>

definition store_epg_channels ::
  "xmltv_file option \<Rightarrow> int \<Rightarrow> db \<Rightarrow> (error + string option list option) \<times> db" where
  "store_epg_channels file e d =
     (case file of
        None \<Rightarrow> (Inr None, d)
      | Some f \<Rightarrow>
          (case et_fromstring f of
             None \<Rightarrow> (Inl ParseError, d)
           | Some input_file \<Rightarrow>
               (case channel_items (iterfind input_file ''channel'') of
                  Inl err \<Rightarrow> (Inl err, d)
                | Inr items \<Rightarrow>
                    (Inr (Some (map it_channel_id items)),
                     d\<lparr>epg_channels :=
                         insert_epg_channels e items
                           (filter (\<lambda>c. ec_epg_id c \<noteq> e) (epg_channels d))\<rparr>))))"

text \<open>\<^verbatim>\<open>elem.text.lower() == 'yes'\<close> for an optional element, \<^verbatim>\<open>None\<close> when it is absent.\<close>

definition yes_flag :: "xml option \<Rightarrow> error + bool option" where
  "yes_flag el =
     (case el of
        None \<Rightarrow> Inr None
      | Some x \<Rightarrow>
          (case text_of x of
             None \<Rightarrow> Inl AttributeError
           | Some s \<Rightarrow> Inr (Some (lower s = ''yes''))))"

definition sub_elem :: "xml option \<Rightarrow> string \<Rightarrow> xml option" where
  "sub_elem parent t = (case parent of None \<Rightarrow> None | Some p \<Rightarrow> find_elem p t)"

definition sub_text :: "xml option \<Rightarrow> string option" where
  "sub_text el = (case el of None \<Rightarrow> None | Some x \<Rightarrow> text_of x)"

definition sub_attrib :: "xml option \<Rightarrow> string \<Rightarrow> string option" where
  "sub_attrib el k = (case el of None \<Rightarrow> None | Some x \<Rightarrow> attrib_get x k)"

text \<open>The texts of the elements that have a non-empty text.\<close>

definition texts :: "xml list \<Rightarrow> string list" where
  "texts es = concat (map (\<lambda>x. if truthy (text_of x) then [the (text_of x)] else []) es)"

definition dumps :: "'a list \<Rightarrow> 'a list option" where
  "dumps xs = (if xs \<noteq> [] then Some xs else None)"

definition credit_types :: "string list" where
  "credit_types =
     [''actor'', ''director'', ''writer'', ''producer'', ''presenter'', ''commentator'', ''guest'']"

definition parse_credits :: "xml option \<Rightarrow> (string \<times> string list) list" where
  "parse_credits credits_elem =
     (case credits_elem of
        None \<Rightarrow> []
      | Some c \<Rightarrow>
          concat (map (\<lambda>credit_type.
                         let credit_list = texts (findall c credit_type)
                         in if credit_list \<noteq> [] then [(credit_type, credit_list)] else [])
                      credit_types))"

definition parse_length :: "xml option \<Rightarrow> string option" where
  "parse_length length_elem =
     (case length_elem of
        None \<Rightarrow> None
      | Some l \<Rightarrow>
          (let length_units = (case attrib_get l ''units'' of None \<Rightarrow> ''minutes'' | Some u \<Rightarrow> u)
           in if truthy (text_of l) then Some (the (text_of l) @ '' '' @ length_units) else None))"

text \<open>
  The body of the loop of \<^verbatim>\<open>store_epg_programmes\<close> for one \<^verbatim>\<open><programme>\<close> element
  whose channel is known: the object that is appended to \<^verbatim>\<open>items\<close>.
\<close>

definition parse_programme :: "int \<Rightarrow> string option \<Rightarrow> xml \<Rightarrow> error + programme" where
  "parse_programme epg_channel_id channel_id p =
     (let video = find_elem p ''video'';
          audio = find_elem p ''audio'';
          episode_num = find_elem p ''episode-num'';
          rating = find_elem p ''rating''
      in case yes_flag (sub_elem video ''present'') of
           Inl err \<Rightarrow> Inl err
         | Inr video_present \<Rightarrow>
        (case yes_flag (sub_elem video ''colour'') of
           Inl err \<Rightarrow> Inl err
         | Inr video_colour \<Rightarrow>
        (case yes_flag (sub_elem audio ''present'') of
           Inl err \<Rightarrow> Inl err
         | Inr audio_present \<Rightarrow>
             Inr \<lparr>pr_id = None,
                  pr_epg_channel_id = epg_channel_id,
                  pr_channel_id = channel_id,
                  pr_title = findtext p ''title'',
                  pr_sub_title = findtext p ''sub-title'',
                  pr_desc = findtext p ''desc'',
                  pr_series_desc = findtext p ''series-desc'',
                  pr_icon_url = sub_attrib (find_elem p ''icon'') ''src'',
                  pr_country = findtext p ''country'',
                  pr_start = attrib_get p ''start'',
                  pr_stop = attrib_get p ''stop'',
                  pr_start_timestamp = attrib_get p ''start_timestamp'',
                  pr_stop_timestamp = attrib_get p ''stop_timestamp'',
                  pr_categories = dumps (texts (findall p ''category'')),
                  pr_url = findtext p ''url'',
                  pr_date = findtext p ''date'',
                  pr_length = parse_length (find_elem p ''length''),
                  pr_keywords = dumps (texts (findall p ''keyword'')),
                  pr_credits = dumps (parse_credits (find_elem p ''credits'')),
                  pr_episode_num_system = sub_attrib episode_num ''system'',
                  pr_episode_num_value = sub_text episode_num,
                  pr_rating_system = sub_attrib rating ''system'',
                  pr_rating_value = sub_text (sub_elem rating ''value''),
                  pr_star_rating = sub_text (sub_elem (find_elem p ''star-rating'') ''value''),
                  pr_video_present = video_present,
                  pr_video_colour = video_colour,
                  pr_video_aspect = sub_text (sub_elem video ''aspect''),
                  pr_video_quality = sub_text (sub_elem video ''quality''),
                  pr_audio_present = audio_present,
                  pr_audio_stereo = sub_text (sub_elem audio ''stereo''),
                  pr_subtitles_type = sub_attrib (find_elem p ''subtitles'') ''type'',
                  pr_audio_described =
                    (if find_elem p ''audio-described'' \<noteq> None then Some True else None),
                  pr_is_premiere = Some (find_elem p ''premiere'' \<noteq> None),
                  pr_is_new = Some (find_elem p ''new'' \<noteq> None),
                  pr_previously_shown = sub_attrib (find_elem p ''previously-shown'') ''start'',
                  pr_review_type = sub_attrib (find_elem p ''review'') ''type'',
                  pr_review_value = sub_text (find_elem p ''review'')\<rparr>)))"

text \<open>
  \<^verbatim>\<open>bulk_save_objects\<close>: an object without a primary key is inserted under the next
  key, an object with one replaces the row of that key.
\<close>

definition save_object :: "programme \<Rightarrow> programme list \<Rightarrow> programme list" where
  "save_object x table =
     (case pr_id x of
        None \<Rightarrow> table @ [x\<lparr>pr_id := Some (next_id (concat (map (\<lambda>r. case pr_id r of None \<Rightarrow> [] | Some i \<Rightarrow> [i]) table)))\<rparr>]
      | Some i \<Rightarrow> map (\<lambda>r. if pr_id r = Some i then x else r) table)"

fun bulk_save_objects :: "programme list \<Rightarrow> programme list \<Rightarrow> programme list" where
  "bulk_save_objects [] table = table"
| "bulk_save_objects (x # xs) table = bulk_save_objects xs (save_object x table)"

text \<open>
  The dictionary \<^verbatim>\<open>channel_ids\<close>: for each upstream id of the list, the key of the first
  row of the source with that id; \<^verbatim>\<open>epg_channel.id\<close> raises when there is no such row.
\<close>

fun build_channel_ids ::
  "int \<Rightarrow> epg_channel list \<Rightarrow> string option list \<Rightarrow> (string option \<rightharpoonup> int)
   \<Rightarrow> error + (string option \<rightharpoonup> int)" where
  "build_channel_ids e table [] channel_ids = Inr channel_ids"
| "build_channel_ids e table (c # cs) channel_ids =
     (case List.find (\<lambda>r. ec_channel_id r = c \<and> ec_epg_id r = e) table of
        None \<Rightarrow> Inl AttributeError
      | Some epg_channel \<Rightarrow>
          build_channel_ids e table cs (channel_ids(c \<mapsto> ec_id epg_channel)))"

text \<open>
  The loop over the \<^verbatim>\<open><programme>\<close> elements, with its state: the pending \<^verbatim>\<open>items\<close>
  and the table as the session sees it. More than 1000 pending items are flushed at the
  start of an iteration.
\<close>

definition flush :: "programme list \<Rightarrow> programme list \<Rightarrow> programme list \<times> programme list" where
  "flush items table =
     (if length items > 1000 then ([], bulk_save_objects items table) else (items, table))"

fun programmes_loop ::
  "(string option \<rightharpoonup> int) \<Rightarrow> xml list \<Rightarrow> programme list \<Rightarrow> programme list
   \<Rightarrow> error + programme list \<times> programme list" where
  "programmes_loop channel_ids [] items table = Inr (items, table)"
| "programmes_loop channel_ids (p # ps) items table =
     (case channel_ids (attrib_get p ''channel'') of
        None \<Rightarrow>
          programmes_loop channel_ids ps (fst (flush items table)) (snd (flush items table))
      | Some epg_channel_id \<Rightarrow>
          (case parse_programme epg_channel_id (attrib_get p ''channel'') p of
             Inl err \<Rightarrow> Inl err
           | Inr item \<Rightarrow>
               programmes_loop channel_ids ps
                 (fst (flush items table) @ [item]) (snd (flush items table))))"

text \<open>
  \<^verbatim>\<open>store_epg_programmes\<close>. The session commits once, after the loop: an exception
  before that leaves the stored rows as they were. The list argument is \<open>None\<close> when
  \<^verbatim>\<open>store_epg_channels\<close> returned \<^verbatim>\<open>False\<close>, which cannot be iterated.
\<close>

definition store_epg_programmes ::
  "xmltv_file option \<Rightarrow> int \<Rightarrow> string option list option \<Rightarrow> db \<Rightarrow> (error + unit) \<times> db" where
  "store_epg_programmes file e channel_id_list d =
     (case file of
        None \<Rightarrow> (Inr (), d)
      | Some f \<Rightarrow>
          (case et_parse f of
             None \<Rightarrow> (Inl ParseError, d)
           | Some input_file \<Rightarrow>
               (case channel_id_list of
                  None \<Rightarrow> (Inl TypeError, d)
                | Some l \<Rightarrow>
                    (case build_channel_ids e (epg_channels d) l Map.empty of
                       Inl err \<Rightarrow> (Inl err, d)
                     | Inr channel_ids \<Rightarrow>
                         (case programmes_loop channel_ids (iterfind input_file ''programme'') []
                                 (epg_channel_programmes d) of
                            Inl err \<Rightarrow> (Inl err, d)
                          | Inr (items, table) \<Rightarrow>
                              (Inr (),
                               d\<lparr>epg_channel_programmes := bulk_save_objects items table\<rparr>))))))"

definition read_config_one_epg :: "db \<Rightarrow> int \<Rightarrow> epg option" where
  "read_config_one_epg d e = List.find (\<lambda>r. epg_id r = e) (epgs d)"

text \<open>
  \<^verbatim>\<open>import_epg_data\<close>. The network is a function from the URL of the source to the
  outcome of the download. The result is the exception that escapes, if any, and the
  database afterwards.
\<close>

definition import_epg_data ::
  "(string option \<Rightarrow> download) \<Rightarrow> int \<Rightarrow> db \<Rightarrow> error option \<times> db" where
  "import_epg_data net e d =
     (case read_config_one_epg d e of
        None \<Rightarrow> (Some KeyError, d)
      | Some epg \<Rightarrow>
          (case net (epg_url epg) of
             FetchFailed \<Rightarrow> (Some FetchError, d)
           | Fetched f \<Rightarrow>
               (case store_epg_channels (Some f) e (clear_epg_channel_data e d) of
                  (Inl err, d1) \<Rightarrow> (Some err, d1)
                | (Inr channel_id_list, d1) \<Rightarrow>
                    (case store_epg_programmes (Some f) e channel_id_list d1 of
                       (Inl err, d2) \<Rightarrow> (Some err, d2)
                     | (Inr u, d2) \<Rightarrow> (None, d2)))))"

text \<open>
  \<^verbatim>\<open>import_epg_data_for_all_epgs\<close>: the sources are read first, then ingested in turn;
  nothing catches an exception of \<^verbatim>\<open>import_epg_data\<close>.
\<close>

fun import_loop ::
  "(string option \<Rightarrow> download) \<Rightarrow> int list \<Rightarrow> db \<Rightarrow> error option \<times> db" where
  "import_loop net [] d = (None, d)"
| "import_loop net (e # es) d =
     (case import_epg_data net e d of
        (Some err, d1) \<Rightarrow> (Some err, d1)
      | (None, d1) \<Rightarrow> import_loop net es d1)"

definition import_epg_data_for_all_epgs ::
  "(string option \<Rightarrow> download) \<Rightarrow> db \<Rightarrow> error option \<times> db" where
  "import_epg_data_for_all_epgs net d = import_loop net (map epg_id (epgs d)) d"

section \<open>Synthesis of the merged guide\<close>

text \<open>
  What \<^verbatim>\<open>build_custom_epg\<close> takes from outside this file: the \<^verbatim>\<open>app_url\<close> setting,
  \<^verbatim>\<open>read_base46_image_string\<close> of \<^verbatim>\<open>backend/channels.py\<close> (image data and MIME type of
  a stored logo), \<^verbatim>\<open>mimetypes.guess_extension\<close>, and the clock: \<open>now i\<close> is
  \<^verbatim>\<open>time.time()\<close>, as the f-string prints it, while the \<open>i\<close>-th row of the channel query
  is processed.
\<close>

record build_env =
  app_url :: string
  read_base46_image_string :: "string option \<Rightarrow> string \<times> string"
  guess_extension :: "string \<Rightarrow> string option"
  now :: "nat \<Rightarrow> string"

definition generate_epg_channel_id :: "int option \<Rightarrow> string option \<Rightarrow> string" where
  "generate_epg_channel_id number name = str_int_opt number"

text \<open>
  The programme query of a channel: the programmes whose guide channel belongs to the
  mapped source and has the mapped upstream id, ordered by upstream id and start.
\<close>

definition db_programmes :: "db \<Rightarrow> channel \<Rightarrow> programme list" where
  "db_programmes d result =
     sort_key (\<lambda>p. (pr_channel_id p, pr_start p))
       (filter
          (\<lambda>p. list_ex (\<lambda>c. ec_id c = pr_epg_channel_id p \<and> Some (ec_epg_id c) = ch_guide_id result)
                  (epg_channels d)
              \<and> list_ex (\<lambda>c. ec_id c = pr_epg_channel_id p
                               \<and> ec_channel_id c = ch_guide_channel_id result)
                  (epg_channels d))
          (epg_channel_programmes d))"

text \<open>The entries of \<^verbatim>\<open>configured_channels\<close> and \<^verbatim>\<open>all_channel_programmes_data\<close>.\<close>

record channel_info =
  ci_channel_id :: string
  ci_display_name :: "string option"
  ci_logo_url :: string

record channel_programmes_data =
  cp_channel :: string
  cp_tags :: "string list"
  cp_programmes :: "programme list"

definition logo_url :: "build_env \<Rightarrow> nat \<Rightarrow> channel \<Rightarrow> string" where
  "logo_url env i result =
     app_url env @ ''/tic-api/channels/'' @ str_int (ch_id result) @ ''/logo/'' @ now env i
       @ str_opt (guess_extension env (snd (read_base46_image_string env (ch_logo_base64 result))))"

text \<open>The first loop: the rows of the channel query with their positions.\<close>

fun collect ::
  "build_env \<Rightarrow> db \<Rightarrow> (nat \<times> channel) list
   \<Rightarrow> channel_info list \<times> channel_programmes_data list" where
  "collect env d [] = ([], [])"
| "collect env d ((i, result) # rest) =
     (if ch_enabled result
      then (\<lparr>ci_channel_id = generate_epg_channel_id (ch_number result) (ch_name result),
              ci_display_name = ch_name result,
              ci_logo_url = logo_url env i result\<rparr> # fst (collect env d rest),
            \<lparr>cp_channel = generate_epg_channel_id (ch_number result) (ch_name result),
              cp_tags = ch_tags result,
              cp_programmes = db_programmes d result\<rparr> # snd (collect env d rest))
      else collect env d rest)"

definition text_elem :: "string \<Rightarrow> string \<Rightarrow> xml" where
  "text_elem t s = Element t [] (Some s) []"

text \<open>The \<^verbatim>\<open><channel>\<close> element; \<^verbatim>\<open>strip\<close> raises on a channel without a name.\<close>

definition channel_element :: "channel_info \<Rightarrow> error + xml" where
  "channel_element channel_info =
     (case ci_display_name channel_info of
        None \<Rightarrow> Inl AttributeError
      | Some name \<Rightarrow>
          Inr (Element ''channel'' [(''id'', ci_channel_id channel_info)] None
                 [text_elem ''display-name'' (strip name),
                  Element ''icon'' [(''src'', ci_logo_url channel_info)] None [],
                  text_elem ''live'' ''true'',
                  text_elem ''active'' ''true'']))"

fun channel_elements :: "channel_info list \<Rightarrow> error + xml list" where
  "channel_elements [] = Inr []"
| "channel_elements (c # cs) =
     (case channel_element c of
        Inl err \<Rightarrow> Inl err
      | Inr x \<Rightarrow> (case channel_elements cs of Inl err \<Rightarrow> Inl err | Inr xs \<Rightarrow> Inr (x # xs)))"

definition opt_attr :: "string \<Rightarrow> string option \<Rightarrow> (string \<times> string) list" where
  "opt_attr k v = (if truthy v then [(k, the v)] else [])"

definition opt_child :: "string \<Rightarrow> string option \<Rightarrow> xml list" where
  "opt_child t v = (case v of None \<Rightarrow> [] | Some s \<Rightarrow> [text_elem t s])"

definition truthy_child :: "string \<Rightarrow> string option \<Rightarrow> xml list" where
  "truthy_child t v = (if truthy v then [text_elem t (the v)] else [])"

definition yes_no :: "bool \<Rightarrow> string" where
  "yes_no b = (if b then ''yes'' else ''no'')"

definition length_element :: "string option \<Rightarrow> xml list" where
  "length_element l =
     (if truthy l
      then (if CHR '' '' \<in> set (the l)
            then [Element ''length''
                    [(''units'', tl (dropWhile (\<lambda>c. c \<noteq> CHR '' '') (the l)))]
                    (Some (takeWhile (\<lambda>c. c \<noteq> CHR '' '') (the l))) []]
            else [Element ''length'' [(''units'', ''minutes'')] l []])
      else [])"

definition credits_element :: "(string \<times> string list) list option \<Rightarrow> xml list" where
  "credits_element cr =
     (case cr of
        None \<Rightarrow> []
      | Some credits \<Rightarrow>
          (if credits \<noteq> []
           then [Element ''credits'' [] None
                   (concat (map (\<lambda>(credit_type, credit_list).
                                   map (text_elem credit_type) credit_list) credits))]
           else []))"

definition episode_num_element :: "programme \<Rightarrow> xml list" where
  "episode_num_element p =
     (if truthy (pr_episode_num_system p) \<and> truthy (pr_episode_num_value p)
      then [Element ''episode-num'' [(''system'', the (pr_episode_num_system p))]
              (pr_episode_num_value p) []]
      else [])"

definition rating_element :: "programme \<Rightarrow> xml list" where
  "rating_element p =
     (if truthy (pr_rating_system p) \<and> truthy (pr_rating_value p)
      then [Element ''rating'' [(''system'', the (pr_rating_system p))] None
              [text_elem ''value'' (the (pr_rating_value p))]]
      else [])"

definition star_rating_element :: "programme \<Rightarrow> xml list" where
  "star_rating_element p =
     (if truthy (pr_star_rating p)
      then [Element ''star-rating'' [] None [text_elem ''value'' (the (pr_star_rating p))]]
      else [])"

definition flag_child :: "string \<Rightarrow> bool option \<Rightarrow> xml list" where
  "flag_child t b = (case b of None \<Rightarrow> [] | Some v \<Rightarrow> [text_elem t (yes_no v)])"

definition group_element :: "string \<Rightarrow> xml list \<Rightarrow> xml list" where
  "group_element t info = (if info \<noteq> [] then [Element t [] None info] else [])"

definition video_element :: "programme \<Rightarrow> xml list" where
  "video_element p =
     group_element ''video''
       (flag_child ''present'' (pr_video_present p) @ flag_child ''colour'' (pr_video_colour p)
        @ truthy_child ''aspect'' (pr_video_aspect p)
        @ truthy_child ''quality'' (pr_video_quality p))"

definition audio_element :: "programme \<Rightarrow> xml list" where
  "audio_element p =
     group_element ''audio''
       (flag_child ''present'' (pr_audio_present p)
        @ truthy_child ''stereo'' (pr_audio_stereo p))"

definition empty_if :: "string \<Rightarrow> bool option \<Rightarrow> xml list" where
  "empty_if t b = (if b = Some True then [Element t [] None []] else [])"

definition review_element :: "programme \<Rightarrow> xml list" where
  "review_element p =
     (if truthy (pr_review_value p)
      then [Element ''review'' (opt_attr ''type'' (pr_review_type p)) (pr_review_value p) []]
      else [])"

definition icon_element :: "programme \<Rightarrow> xml list" where
  "icon_element p =
     (if truthy (pr_icon_url p)
      then [Element ''icon''
              [(''src'', the (pr_icon_url p)), (''height'', []), (''width'', [])] None []]
      else [])"

definition lang_elem :: "string \<Rightarrow> string \<Rightarrow> xml" where
  "lang_elem t s = Element t [(''lang'', ''en'')] (Some s) []"

definition loads :: "'a list option \<Rightarrow> 'a list" where
  "loads v = (case v of None \<Rightarrow> [] | Some xs \<Rightarrow> xs)"

text \<open>
  One \<^verbatim>\<open><programme>\<close> element of the output, for a programme of the channel with
  identity \<open>channel\<close> and tags \<open>tags\<close>.
\<close>

definition programme_element :: "string \<Rightarrow> string list \<Rightarrow> programme \<Rightarrow> xml" where
  "programme_element channel tags p =
     Element ''programme''
       (opt_attr ''start'' (pr_start p) @ opt_attr ''stop'' (pr_stop p)
        @ opt_attr ''start_timestamp'' (pr_start_timestamp p)
        @ opt_attr ''stop_timestamp'' (pr_stop_timestamp p)
        @ [(''channel'', channel)])
       None
       (opt_child ''title'' (pr_title p) @ opt_child ''sub-title'' (pr_sub_title p)
        @ opt_child ''desc'' (pr_desc p) @ opt_child ''series-desc'' (pr_series_desc p)
        @ opt_child ''country'' (pr_country p)
        @ truthy_child ''url'' (pr_url p)
        @ truthy_child ''date'' (pr_date p)
        @ length_element (pr_length p)
        @ credits_element (pr_credits p)
        @ episode_num_element p
        @ rating_element p
        @ star_rating_element p
        @ video_element p
        @ audio_element p
        @ (if truthy (pr_subtitles_type p)
           then [Element ''subtitles'' [(''type'', the (pr_subtitles_type p))] None []] else [])
        @ empty_if ''audio-described'' (pr_audio_described p)
        @ empty_if ''premiere'' (pr_is_premiere p)
        @ empty_if ''new'' (pr_is_new p)
        @ (if truthy (pr_previously_shown p)
           then [Element ''previously-shown'' [(''start'', the (pr_previously_shown p))] None []]
           else [])
        @ review_element p
        @ icon_element p
        @ map (lang_elem ''keyword'') (loads (pr_keywords p))
        @ map (lang_elem ''category'') (loads (pr_categories p))
        @ map (lang_elem ''category'') tags)"

definition programme_elements :: "channel_programmes_data \<Rightarrow> xml list" where
  "programme_elements cpd =
     map (programme_element (cp_channel cpd) (cp_tags cpd)) (cp_programmes cpd)"

text \<open>
  \<^verbatim>\<open>build_custom_epg\<close>: the element tree that is written to \<^verbatim>\<open>epg.xml\<close>, or the
  exception that escapes.
\<close>

definition build_custom_epg :: "build_env \<Rightarrow> db \<Rightarrow> error + xml" where
  "build_custom_epg env d =
     (let results = sort_key ch_number (channels d);
          collected = collect env d (zip [0..<length results] results)
      in case channel_elements (fst collected) of
           Inl err \<Rightarrow> Inl err
         | Inr channel_elems \<Rightarrow>
             Inr (Element ''tv''
                    [(''generator-info-name'', ''TVH-IPTV-Config''),
                     (''source-info-name'', ''TVH-IPTV-Config - v0.1'')]
                    None
                    (channel_elems @ concat (map programme_elements (snd collected)))))"

section \<open>Enrichment from online metadata\<close>

text \<open>
  The first result of the TMDB search, read through \<^verbatim>\<open>get\<close>: a key that is missing
  reads as \<^verbatim>\<open>None\<close>. The result is a dictionary with entries, so it counts as true.
\<close>

record tmdb_data =
  td_title :: "string option"
  td_overview :: "string option"
  td_poster_path :: "string option"

text \<open>
  The outcome of one HTTP request: status 200 with its decoded content, another
  status, or an exception of the client.
\<close>

datatype 'a response = Ok200 'a | OtherStatus | RequestFailed

text \<open>
  The two providers, as functions of the title that is searched for. The TMDB content
  is the list \<^verbatim>\<open>results\<close>; the image search content is the list of \<^verbatim>\<open>img\<close> tags of the
  page, each with its \<^verbatim>\<open>src\<close> attribute if it has one.
\<close>

record providers =
  tmdb_api :: "string option \<Rightarrow> tmdb_data list response"
  google_api :: "string option \<Rightarrow> string option list response"

record settings =
  enable_tmdb_metadata :: bool
  enable_google_image_search_metadata :: bool

text \<open>
  The cache dictionary, one map per provider; a title maps to \<open>None\<close> when the lookup
  found nothing.
\<close>

record cache =
  c_tmdb :: "string option \<rightharpoonup> tmdb_data option"
  c_google_images :: "string option \<rightharpoonup> string option"

definition empty_cache :: cache where
  "empty_cache = \<lparr>c_tmdb = Map.empty, c_google_images = Map.empty\<rparr>"

datatype call = TmdbCall "string option" | GoogleCall "string option"

text \<open>
  A task of \<^verbatim>\<open>update_programmes_concurrently\<close> is the coroutine \<^verbatim>\<open>update_wrapper\<close> for
  one programme. It runs until it has to wait: for the semaphore, or for the response
  to a request. \<open>pc\<close> is the place where the task stands.
\<close>

datatype pc =
  Created
| TmdbWaiting
| TmdbRequested
| GoogleWaiting
| GoogleRequested
| Returned
| Raised error

text \<open>
  What a running task sees and changes: its programme object, its place, the shared
  cache, the free slots of the semaphore and the log of the requests sent.
\<close>

record ctx =
  x_programme :: programme
  x_pc :: pc
  x_cache :: cache
  x_free :: nat
  x_calls :: "call list"

definition release :: "ctx \<Rightarrow> ctx" where
  "release x = x\<lparr>x_free := x_free x + 1\<rparr>"

text \<open>The end of \<^verbatim>\<open>update_programme_with_online_data\<close>, with the image that was found.\<close>

definition google_apply :: "string option \<Rightarrow> ctx \<Rightarrow> ctx" where
  "google_apply image_url x =
     (if truthy image_url
      then x\<lparr>x_programme := (x_programme x)\<lparr>pr_icon_url := image_url\<rparr>, x_pc := Returned\<rparr>
      else x\<lparr>x_pc := Returned\<rparr>)"

text \<open>\<^verbatim>\<open>search_google_images\<close> from the cache check, the semaphore being held.\<close>

definition google_check :: "ctx \<Rightarrow> ctx" where
  "google_check x =
     (case c_google_images (x_cache x) (pr_title (x_programme x)) of
        Some cached \<Rightarrow> google_apply cached (release x)
      | None \<Rightarrow>
          x\<lparr>x_calls := x_calls x @ [GoogleCall (pr_title (x_programme x))],
             x_pc := GoogleRequested\<rparr>)"

definition google_acquire :: "ctx \<Rightarrow> ctx" where
  "google_acquire x =
     (if x_free x > 0 then google_check (x\<lparr>x_free := x_free x - 1\<rparr>)
      else x\<lparr>x_pc := GoogleWaiting\<rparr>)"

text \<open>The second part of \<^verbatim>\<open>update_programme_with_online_data\<close>.\<close>

definition google_stage :: "settings \<Rightarrow> ctx \<Rightarrow> ctx" where
  "google_stage st x =
     (if \<not> truthy (pr_icon_url (x_programme x))
      then (if enable_google_image_search_metadata st then google_acquire x
            else x\<lparr>x_pc := Returned\<rparr>)
      else x\<lparr>x_pc := Returned\<rparr>)"

definition cache_google :: "string option \<Rightarrow> ctx \<Rightarrow> ctx" where
  "cache_google v x =
     x\<lparr>x_cache := (x_cache x)\<lparr>c_google_images :=
          (c_google_images (x_cache x))(pr_title (x_programme x) \<mapsto> v)\<rparr>\<rparr>"

text \<open>
  \<^verbatim>\<open>search_google_images\<close> from the arrival of the response. The second image is
  taken; a page with one image, or a second image without \<^verbatim>\<open>src\<close>, raises.
\<close>

definition google_response :: "providers \<Rightarrow> ctx \<Rightarrow> ctx" where
  "google_response prov x =
     (case google_api prov (pr_title (x_programme x)) of
        Ok200 images \<Rightarrow>
          (case images of
             [] \<Rightarrow> google_apply None (release (cache_google None x))
           | [first] \<Rightarrow> (release x)\<lparr>x_pc := Raised IndexError\<rparr>
           | first # None # others \<Rightarrow> (release x)\<lparr>x_pc := Raised KeyError\<rparr>
           | first # Some image_url # others \<Rightarrow>
               google_apply (Some image_url) (release (cache_google (Some image_url) x)))
      | OtherStatus \<Rightarrow> google_apply None (release (cache_google None x))
      | RequestFailed \<Rightarrow> (release x)\<lparr>x_pc := Raised ProviderError\<rparr>)"

text \<open>The update of the programme with the TMDB data, when there is some.\<close>

definition tmdb_apply :: "tmdb_data option \<Rightarrow> programme \<Rightarrow> programme" where
  "tmdb_apply tmdb_data p =
     (case tmdb_data of
        None \<Rightarrow> p
      | Some data \<Rightarrow>
          (let p1 = (if \<not> truthy (pr_sub_title p) then p\<lparr>pr_sub_title := td_title data\<rparr> else p);
               p2 = (if \<not> truthy (pr_desc p1) then p1\<lparr>pr_desc := td_overview data\<rparr> else p1)
           in if \<not> truthy (pr_icon_url p2)
              then p2\<lparr>pr_icon_url :=
                       Some (''https://image.tmdb.org/t/p/w500'' @ str_opt (td_poster_path data))\<rparr>
              else p2))"

definition tmdb_done :: "settings \<Rightarrow> tmdb_data option \<Rightarrow> ctx \<Rightarrow> ctx" where
  "tmdb_done st tmdb_data x =
     google_stage st (x\<lparr>x_programme := tmdb_apply tmdb_data (x_programme x)\<rparr>)"

text \<open>\<^verbatim>\<open>search_tmdb_for_movie\<close> from the cache check, the semaphore being held.\<close>

definition tmdb_check :: "settings \<Rightarrow> ctx \<Rightarrow> ctx" where
  "tmdb_check st x =
     (case c_tmdb (x_cache x) (pr_title (x_programme x)) of
        Some cached \<Rightarrow> tmdb_done st cached (release x)
      | None \<Rightarrow>
          x\<lparr>x_calls := x_calls x @ [TmdbCall (pr_title (x_programme x))],
             x_pc := TmdbRequested\<rparr>)"

definition tmdb_acquire :: "settings \<Rightarrow> ctx \<Rightarrow> ctx" where
  "tmdb_acquire st x =
     (if x_free x > 0 then tmdb_check st (x\<lparr>x_free := x_free x - 1\<rparr>)
      else x\<lparr>x_pc := TmdbWaiting\<rparr>)"

definition cache_tmdb :: "tmdb_data option \<Rightarrow> ctx \<Rightarrow> ctx" where
  "cache_tmdb v x =
     x\<lparr>x_cache := (x_cache x)\<lparr>c_tmdb := (c_tmdb (x_cache x))(pr_title (x_programme x) \<mapsto> v)\<rparr>\<rparr>"

text \<open>\<^verbatim>\<open>search_tmdb_for_movie\<close> from the arrival of the response.\<close>

definition tmdb_response :: "settings \<Rightarrow> providers \<Rightarrow> ctx \<Rightarrow> ctx" where
  "tmdb_response st prov x =
     (case tmdb_api prov (pr_title (x_programme x)) of
        Ok200 results \<Rightarrow>
          (case results of
             [] \<Rightarrow> tmdb_done st None (release (cache_tmdb None x))
           | first # others \<Rightarrow> tmdb_done st (Some first) (release (cache_tmdb (Some first) x)))
      | OtherStatus \<Rightarrow> tmdb_done st None (release (cache_tmdb None x))
      | RequestFailed \<Rightarrow> (release x)\<lparr>x_pc := Raised ProviderError\<rparr>)"

text \<open>
  \<^verbatim>\<open>update_programme_with_online_data\<close> from its start: the TMDB lookup is made for a
  programme without sub-title, description and icon.
\<close>

definition update_programme_with_online_data :: "settings \<Rightarrow> ctx \<Rightarrow> ctx" where
  "update_programme_with_online_data st x =
     (if \<not> (truthy (pr_sub_title (x_programme x)) \<or> truthy (pr_desc (x_programme x))
            \<or> truthy (pr_icon_url (x_programme x)))
      then (if enable_tmdb_metadata st then tmdb_acquire st x else google_stage st x)
      else google_stage st x)"

text \<open>
  \<^verbatim>\<open>update_wrapper\<close>: \<^verbatim>\<open>json.loads\<close> raises on a programme whose categories are null.
\<close>

definition update_wrapper :: "settings \<Rightarrow> ctx \<Rightarrow> ctx" where
  "update_wrapper st x =
     (case pr_categories (x_programme x) of
        None \<Rightarrow> x\<lparr>x_pc := Raised TypeError\<rparr>
      | Some categories \<Rightarrow> update_programme_with_online_data st x)"

text \<open>
  One turn of a task: it runs from its place to the next place where it waits. A task
  that waits for the semaphore can run when a slot is free, a task that waits for a
  response when the response is there; a task that is over cannot run.
\<close>

definition turn :: "settings \<Rightarrow> providers \<Rightarrow> ctx \<Rightarrow> ctx option" where
  "turn st prov x =
     (case x_pc x of
        Created \<Rightarrow> Some (update_wrapper st x)
      | TmdbWaiting \<Rightarrow>
          (if x_free x > 0 then Some (tmdb_check st (x\<lparr>x_free := x_free x - 1\<rparr>)) else None)
      | TmdbRequested \<Rightarrow> Some (tmdb_response st prov x)
      | GoogleWaiting \<Rightarrow>
          (if x_free x > 0 then Some (google_check (x\<lparr>x_free := x_free x - 1\<rparr>)) else None)
      | GoogleRequested \<Rightarrow> Some (google_response prov x)
      | Returned \<Rightarrow> None
      | Raised err \<Rightarrow> None)"

text \<open>The tasks of a batch on the event loop, with the state they share.\<close>

record task =
  t_programme :: programme
  t_pc :: pc

record loop_state =
  ls_tasks :: "task list"
  ls_cache :: cache
  ls_free :: nat
  ls_calls :: "call list"

definition run_task :: "settings \<Rightarrow> providers \<Rightarrow> nat \<Rightarrow> loop_state \<Rightarrow> loop_state option" where
  "run_task st prov i s =
     (if i < length (ls_tasks s)
      then (case turn st prov
                   \<lparr>x_programme = t_programme (ls_tasks s ! i), x_pc = t_pc (ls_tasks s ! i),
                    x_cache = ls_cache s, x_free = ls_free s, x_calls = ls_calls s\<rparr> of
              None \<Rightarrow> None
            | Some x \<Rightarrow>
                Some \<lparr>ls_tasks = (ls_tasks s)[i := \<lparr>t_programme = x_programme x, t_pc = x_pc x\<rparr>],
                      ls_cache = x_cache x, ls_free = x_free x, ls_calls = x_calls x\<rparr>)
      else None)"

text \<open>
  The event loop runs the tasks one turn at a time. The schedule names the task of
  each turn; it is \<open>None\<close> when the schedule names a task that cannot run.
\<close>

fun run_schedule ::
  "settings \<Rightarrow> providers \<Rightarrow> nat list \<Rightarrow> loop_state \<Rightarrow> loop_state option" where
  "run_schedule st prov [] s = Some s"
| "run_schedule st prov (i # sched) s =
     (case run_task st prov i s of None \<Rightarrow> None | Some s1 \<Rightarrow> run_schedule st prov sched s1)"

definition finished :: "task \<Rightarrow> bool" where
  "finished t = (case t_pc t of Returned \<Rightarrow> True | Raised err \<Rightarrow> True | _ \<Rightarrow> False)"

text \<open>
  \<^verbatim>\<open>update_programmes_concurrently\<close>. \<^verbatim>\<open>gather\<close> starts the tasks in the order of the
  list, and each runs its first turn before any response is handled; the schedule
  gives the order of the later turns, which is the order in which responses arrive and
  waiting tasks are woken. The semaphore has 10 slots. The call returns when every
  task is over; the programme objects are the ones the tasks changed, also those of
  tasks that raised. The result is \<open>None\<close> for a schedule that cannot happen or that
  leaves a task waiting.
\<close>

definition update_programmes_concurrently ::
  "settings \<Rightarrow> providers \<Rightarrow> programme list \<Rightarrow> cache \<Rightarrow> nat list
   \<Rightarrow> (programme list \<times> cache \<times> call list) option" where
  "update_programmes_concurrently st prov programmes cache sched =
     (case run_schedule st prov ([0..<length programmes] @ sched)
             \<lparr>ls_tasks = map (\<lambda>p. \<lparr>t_programme = p, t_pc = Created\<rparr>) programmes,
              ls_cache = cache, ls_free = 10, ls_calls = []\<rparr> of
        None \<Rightarrow> None
      | Some s \<Rightarrow>
          (if list_all finished (ls_tasks s)
           then Some (map t_programme (ls_tasks s), ls_cache s, ls_calls s)
           else None))"

text \<open>
  \<^verbatim>\<open>update_channel_epg_with_online_data\<close>: one batch for each enabled channel, in the
  order of the channel numbers, all with the same cache; \<open>scheds\<close> holds the schedule of
  each batch. The result is the database and the requests that were sent.
\<close>

fun enrich_channels ::
  "settings \<Rightarrow> providers \<Rightarrow> channel list \<Rightarrow> nat list list \<Rightarrow> cache \<Rightarrow> call list \<Rightarrow> db
   \<Rightarrow> (db \<times> call list) option" where
  "enrich_channels st prov [] scheds cache calls d = Some (d, calls)"
| "enrich_channels st prov (result # rest) scheds cache calls d =
     (if ch_enabled result
      then (case scheds of
              [] \<Rightarrow> None
            | sched # later \<Rightarrow>
                (case update_programmes_concurrently st prov (db_programmes d result) cache
                        sched of
                   None \<Rightarrow> None
                 | Some (programmes, cache1, calls1) \<Rightarrow>
                     enrich_channels st prov rest later cache1 (calls @ calls1)
                       (d\<lparr>epg_channel_programmes :=
                            bulk_save_objects programmes (epg_channel_programmes d)\<rparr>)))
      else enrich_channels st prov rest scheds cache calls d)"

definition update_channel_epg_with_online_data ::
  "settings \<Rightarrow> providers \<Rightarrow> nat list list \<Rightarrow> db \<Rightarrow> (db \<times> call list) option" where
  "update_channel_epg_with_online_data st prov scheds d =
     (if \<not> (enable_tmdb_metadata st \<or> enable_google_image_search_metadata st)
      then Some (d, [])
      else enrich_channels st prov (sort_key ch_number (channels d)) scheds empty_cache [] d)"

section \<open>Notions used to state the properties\<close>

text \<open>The guide channels of a source, and the programmes that hang on them.\<close>

definition source_channels :: "int \<Rightarrow> db \<Rightarrow> epg_channel list" where
  "source_channels e d = filter (\<lambda>c. ec_epg_id c = e) (epg_channels d)"

definition source_programmes :: "int \<Rightarrow> db \<Rightarrow> programme list" where
  "source_programmes e d =
     filter (\<lambda>p. pr_epg_channel_id p \<in> set (map ec_id (source_channels e d)))
       (epg_channel_programmes d)"

text \<open>
  Integrity of the two guide tables: the keys of the channel rows are distinct, and
  every programme row refers to a channel row.
\<close>

definition db_ok :: "db \<Rightarrow> bool" where
  "db_ok d =
     (distinct (map ec_id (epg_channels d))
      \<and> list_all (\<lambda>p. pr_epg_channel_id p \<in> set (map ec_id (epg_channels d)))
           (epg_channel_programmes d))"

text \<open>What a channel row says, without its key.\<close>

definition item_of :: "epg_channel \<Rightarrow> channel_item" where
  "item_of c =
     \<lparr>it_channel_id = ec_channel_id c, it_name = ec_name c, it_icon_url = ec_icon_url c\<rparr>"

text \<open>
  The key under which programmes of an upstream id are stored: the key of the first
  channel row of the source with that id.
\<close>

definition channel_key :: "int \<Rightarrow> db \<Rightarrow> string option \<Rightarrow> int option" where
  "channel_key e d c =
     map_option ec_id (List.find (\<lambda>r. ec_channel_id r = c \<and> ec_epg_id r = e) (epg_channels d))"

text \<open>
  The programme objects that a list of \<^verbatim>\<open><programme>\<close> elements yields under a
  dictionary of channel keys, one after the other and without the chunking.
\<close>

fun accepted :: "(string option \<rightharpoonup> int) \<Rightarrow> xml list \<Rightarrow> error + programme list" where
  "accepted channel_ids [] = Inr []"
| "accepted channel_ids (p # ps) =
     (case channel_ids (attrib_get p ''channel'') of
        None \<Rightarrow> accepted channel_ids ps
      | Some epg_channel_id \<Rightarrow>
          (case parse_programme epg_channel_id (attrib_get p ''channel'') p of
             Inl err \<Rightarrow> Inl err
           | Inr item \<Rightarrow>
               (case accepted channel_ids ps of
                  Inl err \<Rightarrow> Inl err
                | Inr its \<Rightarrow> Inr (item # its))))"

text \<open>
  The end of \<^verbatim>\<open>store_epg_programmes\<close> after the loop: the pending items are saved,
  unless the loop raised.
\<close>

definition saved :: "error + programme list \<times> programme list \<Rightarrow> error + programme list" where
  "saved r =
     (case r of Inl err \<Rightarrow> Inl err | Inr (items, table) \<Rightarrow> Inr (bulk_save_objects items table))"

text \<open>The enabled channels in the order of the channel query.\<close>

definition enabled_channels :: "db \<Rightarrow> channel list" where
  "enabled_channels d = filter ch_enabled (sort_key ch_number (channels d))"

text \<open>The identity of an output channel in the merged guide.\<close>

definition identity :: "channel \<Rightarrow> string" where
  "identity c = generate_epg_channel_id (ch_number c) (ch_name c)"

text \<open>
  The entries that the first loop of \<^verbatim>\<open>build_custom_epg\<close> appends for an enabled row
  at position \<open>fst ir\<close> of the channel query.
\<close>

definition info_of :: "build_env \<Rightarrow> nat \<times> channel \<Rightarrow> channel_info" where
  "info_of env ir =
     \<lparr>ci_channel_id = identity (snd ir), ci_display_name = ch_name (snd ir),
      ci_logo_url = logo_url env (fst ir) (snd ir)\<rparr>"

definition data_of :: "db \<Rightarrow> channel \<Rightarrow> channel_programmes_data" where
  "data_of d c = \<lparr>cp_channel = identity c, cp_tags = ch_tags c, cp_programmes = db_programmes d c\<rparr>"

text \<open>The guide mapping of a channel resolves when its source has a row with its upstream id.\<close>

definition resolves :: "db \<Rightarrow> channel \<Rightarrow> bool" where
  "resolves d c =
     list_ex (\<lambda>r. Some (ec_epg_id r) = ch_guide_id c \<and> ec_channel_id r = ch_guide_channel_id c)
       (epg_channels d)"

text \<open>
  The document without the logo references: the \<^verbatim>\<open>src\<close> of the icon of every
  \<^verbatim>\<open><channel>\<close> element is blanked.
\<close>

definition blank_icon :: "xml \<Rightarrow> xml" where
  "blank_icon x =
     (if tag x = ''icon'' then Element (tag x) [(''src'', [])] (text_of x) (children x) else x)"

definition blank_logo :: "xml \<Rightarrow> xml" where
  "blank_logo x =
     (if tag x = ''channel''
      then Element (tag x) (attrib x) (text_of x) (map blank_icon (children x))
      else x)"

definition without_logos :: "xml \<Rightarrow> xml" where
  "without_logos doc = Element (tag doc) (attrib doc) (text_of doc) (map blank_logo (children doc))"






text \<open>What task \<open>i\<close> sees when it runs, and the state in which a batch starts.\<close>

definition ctx_of :: "loop_state \<Rightarrow> nat \<Rightarrow> ctx" where
  "ctx_of s i =
     \<lparr>x_programme = t_programme (ls_tasks s ! i), x_pc = t_pc (ls_tasks s ! i),
      x_cache = ls_cache s, x_free = ls_free s, x_calls = ls_calls s\<rparr>"


text \<open>
  The programme \<open>p\<close> hangs on a channel row that belongs to the guide of the channel
  \<open>c\<close> and carries the upstream id that \<open>c\<close> is mapped to.
\<close>

definition supplies :: "db \<Rightarrow> channel \<Rightarrow> programme \<Rightarrow> bool" where
  "supplies d c p =
     list_ex (\<lambda>r. ec_id r = pr_epg_channel_id p \<and> Some (ec_epg_id r) = ch_guide_id c
                  \<and> ec_channel_id r = ch_guide_channel_id c)
       (epg_channels d)"



text \<open>
  What one turn of a task does to the cache and to the list of requests: nothing, or
  one request for the title of the task, sent while the cache has no entry for it; a
  turn that handles a response first writes the answer into the cache.
\<close>

definition title_of :: "ctx \<Rightarrow> string option" where
  "title_of x = pr_title (x_programme x)"














section \<open>Example data\<close>

definition blank_programme :: programme where
  "blank_programme =
     \<lparr>pr_id = None, pr_epg_channel_id = 1, pr_channel_id = Some ''ch1'',
      pr_title = Some ''News'', pr_sub_title = None, pr_desc = None, pr_series_desc = None,
      pr_icon_url = None, pr_country = None, pr_start = None, pr_stop = None,
      pr_start_timestamp = None, pr_stop_timestamp = None, pr_categories = Some [''news''],
      pr_url = None, pr_date = None, pr_length = None, pr_keywords = None, pr_credits = None,
      pr_episode_num_system = None, pr_episode_num_value = None, pr_rating_system = None,
      pr_rating_value = None, pr_star_rating = None, pr_video_present = None,
      pr_video_colour = None, pr_video_aspect = None, pr_video_quality = None,
      pr_audio_present = None, pr_audio_stereo = None, pr_subtitles_type = None,
      pr_audio_described = None, pr_is_premiere = None, pr_is_new = None,
      pr_previously_shown = None, pr_review_type = None, pr_review_value = None\<rparr>"

text \<open>
  A guide with one channel and two programmes: one on the declared channel, with an
  episode number that has no system, and one on a channel that is not declared.
\<close>

definition news_programme :: xml where
  "news_programme =
     Element ''programme''
       [(''start'', ''20240101120000 +0000''), (''stop'', ''20240101130000 +0000''),
        (''channel'', ''ch1'')] None
       [Element ''title'' [] (Some ''News'') [],
        Element ''episode-num'' [] (Some ''S1E2'') []]"

definition example_guide :: xml where
  "example_guide =
     Element ''tv'' [] None
       [Element ''channel'' [(''id'', ''ch1'')] None
          [Element ''display-name'' [] (Some ''BBC One'') []],
        news_programme,
        Element ''programme'' [(''start'', ''20240101120000 +0000''), (''channel'', ''zz'')] None
          [Element ''title'' [] (Some ''Elsewhere'') []]]"

definition other_guide :: xml where
  "other_guide =
     Element ''tv'' [] None
       [Element ''channel'' [(''id'', ''ch2'')] None
          [Element ''display-name'' [] (Some ''BBC Two'') []],
        Element ''programme'' [(''start'', ''20240102120000 +0000''), (''channel'', ''ch2'')] None
          [Element ''title'' [] (Some ''Weather'') []]]"

definition file_of :: "xml \<Rightarrow> xmltv_file" where
  "file_of doc = \<lparr>et_fromstring = Some doc, et_parse = Some doc\<rparr>"

definition malformed_file :: xmltv_file where
  "malformed_file = \<lparr>et_fromstring = None, et_parse = None\<rparr>"

text \<open>
  Two sources and three output channels: 101 mapped to \<open>ch1\<close> of source 1, 102 enabled
  but without a guide mapping, 103 disabled.
\<close>

definition example_db :: db where
  "example_db =
     \<lparr>epgs = [\<lparr>epg_id = 1, epg_enabled = True, epg_name = Some ''one'', epg_url = Some ''http://one''\<rparr>,
              \<lparr>epg_id = 2, epg_enabled = True, epg_name = Some ''two'', epg_url = Some ''http://two''\<rparr>],
      epg_channels = [],
      epg_channel_programmes = [],
      channels =
        [\<lparr>ch_id = 9, ch_enabled = False, ch_name = Some ''Off'', ch_logo_base64 = None,
          ch_number = Some 103, ch_guide_id = Some 1, ch_guide_channel_id = Some ''ch1'',
          ch_tags = []\<rparr>,
         \<lparr>ch_id = 8, ch_enabled = True, ch_name = Some ''Unmapped'', ch_logo_base64 = None,
          ch_number = Some 102, ch_guide_id = None, ch_guide_channel_id = None, ch_tags = []\<rparr>,
         \<lparr>ch_id = 7, ch_enabled = True, ch_name = Some ''One'', ch_logo_base64 = None,
          ch_number = Some 101, ch_guide_id = Some 1, ch_guide_channel_id = Some ''ch1'',
          ch_tags = [''uk'']\<rparr>]\<rparr>"

text \<open>Networks: every source answers; the first source is down; the first answers garbage.\<close>

definition good_net :: "string option \<Rightarrow> download" where
  "good_net url =
     (if url = Some ''http://one'' then Fetched (file_of example_guide)
      else Fetched (file_of other_guide))"

definition down_net :: "string option \<Rightarrow> download" where
  "down_net url =
     (if url = Some ''http://one'' then FetchFailed else Fetched (file_of other_guide))"

definition garbled_net :: "string option \<Rightarrow> download" where
  "garbled_net url =
     (if url = Some ''http://one'' then Fetched malformed_file
      else Fetched (file_of other_guide))"

definition swapped_net :: "string option \<Rightarrow> download" where
  "swapped_net url = Fetched (file_of other_guide)"

definition example_env :: build_env where
  "example_env =
     \<lparr>app_url = ''http://tic'',
      read_base46_image_string = (\<lambda>logo. ([], ''image/png'')),
      guess_extension = (\<lambda>mime. Some ''.png''),
      now = (\<lambda>i. ''1700000000.5'')\<rparr>"




text \<open>The object that \<^verbatim>\<open>store_epg_programmes\<close> builds from \<open>news_programme\<close>.\<close>

definition news_row :: programme where
  "news_row =
     blank_programme
       \<lparr>pr_start := Some ''20240101120000 +0000'', pr_stop := Some ''20240101130000 +0000'',
        pr_categories := None, pr_episode_num_value := Some ''S1E2'',
        pr_is_premiere := Some False, pr_is_new := Some False\<rparr>"

text \<open>The store after source 1 of the example has been ingested.\<close>

definition ingested_db :: db where
  "ingested_db = snd (import_epg_data good_net 1 example_db)"

definition unmapped_channel :: channel where
  "unmapped_channel =
     \<lparr>ch_id = 8, ch_enabled = True, ch_name = Some ''Unmapped'', ch_logo_base64 = None,
      ch_number = Some 102, ch_guide_id = None, ch_guide_channel_id = None, ch_tags = []\<rparr>"

text \<open>The merged guide of the example, built at the time \<open>t\<close>.\<close>

definition example_output_at :: "string \<Rightarrow> xml" where
  "example_output_at t =
     Element ''tv''
       [(''generator-info-name'', ''TVH-IPTV-Config''),
        (''source-info-name'', ''TVH-IPTV-Config - v0.1'')]
       None
       [Element ''channel'' [(''id'', ''101'')] None
          [Element ''display-name'' [] (Some ''One'') [],
           Element ''icon'' [(''src'', ''http://tic/tic-api/channels/7/logo/'' @ t @ ''.png'')] None [],
           Element ''live'' [] (Some ''true'') [],
           Element ''active'' [] (Some ''true'') []],
        Element ''channel'' [(''id'', ''102'')] None
          [Element ''display-name'' [] (Some ''Unmapped'') [],
           Element ''icon'' [(''src'', ''http://tic/tic-api/channels/8/logo/'' @ t @ ''.png'')] None [],
           Element ''live'' [] (Some ''true'') [],
           Element ''active'' [] (Some ''true'') []],
        Element ''programme''
          [(''start'', ''20240101120000 +0000''), (''stop'', ''20240101130000 +0000''),
           (''channel'', ''101'')]
          None
          [Element ''title'' [] (Some ''News'') [],
           Element ''category'' [(''lang'', ''en'')] (Some ''uk'') []]]"

text \<open>The store after source 1 has been ingested again, now serving the other guide.\<close>

definition reingested_db :: db where
  "reingested_db = snd (import_epg_data swapped_net 1 ingested_db)"

definition source_one :: epg where
  "source_one =
     \<lparr>epg_id = 1, epg_enabled = True, epg_name = Some ''one'', epg_url = Some ''http://one''\<rparr>"



text \<open>
  A download that \<^verbatim>\<open>ET.fromstring\<close> reads as the other guide and \<^verbatim>\<open>ET.parse\<close> rejects,
  and the store in which the channel step leaves source 1 of the ingested example.
\<close>

definition torn_file :: xmltv_file where
  "torn_file = \<lparr>et_fromstring = Some other_guide, et_parse = None\<rparr>"

definition torn_net :: "string option \<Rightarrow> download" where
  "torn_net url = Fetched torn_file"

definition torn_db :: db where
  "torn_db = snd (store_epg_channels (Some torn_file) 1 (clear_epg_channel_data 1 ingested_db))"

text \<open>Three sources, of which the second is down, and the store after the first is ingested.\<close>

definition three_sources_db :: db where
  "three_sources_db =
     example_db
       \<lparr>epgs := [\<lparr>epg_id = 1, epg_enabled = True, epg_name = Some ''one'', epg_url = Some ''http://one''\<rparr>,
                 \<lparr>epg_id = 2, epg_enabled = True, epg_name = Some ''two'', epg_url = Some ''http://two''\<rparr>,
                 \<lparr>epg_id = 3, epg_enabled = True, epg_name = Some ''three'',
                  epg_url = Some ''http://three''\<rparr>]\<rparr>"

definition middle_down_net :: "string option \<Rightarrow> download" where
  "middle_down_net url =
     (if url = Some ''http://one'' then Fetched (file_of example_guide)
      else if url = Some ''http://two'' then FetchFailed
      else Fetched (file_of other_guide))"

definition first_ingested_db :: db where
  "first_ingested_db = snd (import_epg_data middle_down_net 1 three_sources_db)"

text \<open>
  A guide that declares two channels and has four programmes: two of the first channel,
  the later one first, one of a channel that is not declared, and one of the second
  channel. The channel table maps a channel to each declared one, the channel with the
  higher number first.
\<close>

definition two_channel_guide :: xml where
  "two_channel_guide =
     Element ''tv'' [] None
       [Element ''channel'' [(''id'', ''a'')] None
          [Element ''display-name'' [] (Some ''Alpha'') []],
        Element ''channel'' [(''id'', ''b'')] None
          [Element ''display-name'' [] (Some ''Beta'') []],
        Element ''programme'' [(''start'', ''20240101130000 +0000''), (''channel'', ''a'')] None
          [Element ''title'' [] (Some ''Late'') []],
        Element ''programme'' [(''start'', ''20240101120000 +0000''), (''channel'', ''zz'')] None
          [Element ''title'' [] (Some ''Nowhere'') []],
        Element ''programme'' [(''start'', ''20240101120000 +0000''), (''channel'', ''b'')] None
          [Element ''title'' [] (Some ''Other'') []],
        Element ''programme'' [(''start'', ''20240101120000 +0000''), (''channel'', ''a'')] None
          [Element ''title'' [] (Some ''Early'') []]]"

definition wide_net :: "string option \<Rightarrow> download" where
  "wide_net url = Fetched (file_of two_channel_guide)"

definition alpha_channel :: channel where
  "alpha_channel =
     \<lparr>ch_id = 4, ch_enabled = True, ch_name = Some ''Alpha'', ch_logo_base64 = None,
      ch_number = Some 201, ch_guide_id = Some 1, ch_guide_channel_id = Some ''a'',
      ch_tags = []\<rparr>"

definition beta_channel :: channel where
  "beta_channel =
     \<lparr>ch_id = 5, ch_enabled = True, ch_name = Some ''Beta'', ch_logo_base64 = None,
      ch_number = Some 202, ch_guide_id = Some 1, ch_guide_channel_id = Some ''b'',
      ch_tags = []\<rparr>"

definition wide_db :: db where
  "wide_db = example_db\<lparr>channels := [beta_channel, alpha_channel]\<rparr>"

definition wide_ingested_db :: db where
  "wide_ingested_db = snd (import_epg_data wide_net 1 wide_db)"

text \<open>The merged guide of that store.\<close>

definition wide_output :: xml where
  "wide_output =
     Element ''tv''
       [(''generator-info-name'', ''TVH-IPTV-Config''),
        (''source-info-name'', ''TVH-IPTV-Config - v0.1'')]
       None
       [Element ''channel'' [(''id'', ''201'')] None
          [Element ''display-name'' [] (Some ''Alpha'') [],
           Element ''icon'' [(''src'', ''http://tic/tic-api/channels/4/logo/1700000000.5.png'')]
             None [],
           Element ''live'' [] (Some ''true'') [],
           Element ''active'' [] (Some ''true'') []],
        Element ''channel'' [(''id'', ''202'')] None
          [Element ''display-name'' [] (Some ''Beta'') [],
           Element ''icon'' [(''src'', ''http://tic/tic-api/channels/5/logo/1700000000.5.png'')]
             None [],
           Element ''live'' [] (Some ''true'') [],
           Element ''active'' [] (Some ''true'') []],
        Element ''programme'' [(''start'', ''20240101120000 +0000''), (''channel'', ''201'')] None
          [Element ''title'' [] (Some ''Early'') []],
        Element ''programme'' [(''start'', ''20240101130000 +0000''), (''channel'', ''201'')] None
          [Element ''title'' [] (Some ''Late'') []],
        Element ''programme'' [(''start'', ''20240101120000 +0000''), (''channel'', ''202'')] None
          [Element ''title'' [] (Some ''Other'') []]]"








section \<open>Elements that pair a system with a value\<close>

text \<open>The children of a \<^verbatim>\<open><programme>\<close> element of the output, by tag.\<close>

lemma tagged_opt_child: "filter (\<lambda>c. tag c = t) (opt_child u v) = (if t = u then opt_child u v else [])"
  by (simp add: opt_child_def text_elem_def split: option.splits)

lemma tagged_truthy_child:
  "filter (\<lambda>c. tag c = t) (truthy_child u v) = (if t = u then truthy_child u v else [])"
  by (simp add: truthy_child_def text_elem_def)

lemma tagged_length_element:
  "filter (\<lambda>c. tag c = t) (length_element l) = (if t = ''length'' then length_element l else [])"
  by (simp add: length_element_def)

lemma tagged_credits_element:
  "filter (\<lambda>c. tag c = t) (credits_element cr) = (if t = ''credits'' then credits_element cr else [])"
  by (simp add: credits_element_def split: option.splits)

lemma tagged_episode_num_element:
  "filter (\<lambda>c. tag c = t) (episode_num_element p)
     = (if t = ''episode-num'' then episode_num_element p else [])"
  by (simp add: episode_num_element_def)

lemma tagged_rating_element:
  "filter (\<lambda>c. tag c = t) (rating_element p) = (if t = ''rating'' then rating_element p else [])"
  by (simp add: rating_element_def)

lemma tagged_star_rating_element:
  "filter (\<lambda>c. tag c = t) (star_rating_element p)
     = (if t = ''star-rating'' then star_rating_element p else [])"
  by (simp add: star_rating_element_def)

lemma tagged_group_element:
  "filter (\<lambda>c. tag c = t) (group_element u info) = (if t = u then group_element u info else [])"
  by (simp add: group_element_def)

lemma tagged_empty_if:
  "filter (\<lambda>c. tag c = t) (empty_if u b) = (if t = u then empty_if u b else [])"
  by (simp add: empty_if_def)

lemma tagged_review_element:
  "filter (\<lambda>c. tag c = t) (review_element p) = (if t = ''review'' then review_element p else [])"
  by (simp add: review_element_def)

lemma tagged_icon_element:
  "filter (\<lambda>c. tag c = t) (icon_element p) = (if t = ''icon'' then icon_element p else [])"
  by (simp add: icon_element_def)

lemma tagged_lang_elem:
  "filter (\<lambda>c. tag c = t) (map (lang_elem u) xs) = (if t = u then map (lang_elem u) xs else [])"
  by (induction xs) (auto simp: lang_elem_def)

lemmas tagged =
  tagged_opt_child tagged_truthy_child tagged_length_element tagged_credits_element
  tagged_episode_num_element tagged_rating_element tagged_star_rating_element
  tagged_group_element tagged_empty_if tagged_review_element tagged_icon_element
  tagged_lang_elem

lemma findall_episode_num:
  "findall (programme_element ch tags p) ''episode-num'' = episode_num_element p"
  by (simp add: findall_def programme_element_def video_element_def audio_element_def tagged)

lemma findall_rating:
  "findall (programme_element ch tags p) ''rating'' = rating_element p"
  by (simp add: findall_def programme_element_def video_element_def audio_element_def tagged)

lemma parse_programme_episode_num:
  "parse_programme k c x = Inr q \<Longrightarrow>
   pr_episode_num_system q = sub_attrib (find_elem x ''episode-num'') ''system''
   \<and> pr_episode_num_value q = sub_text (find_elem x ''episode-num'')
   \<and> pr_rating_system q = sub_attrib (find_elem x ''rating'') ''system''
   \<and> pr_rating_value q = sub_text (sub_elem (find_elem x ''rating'') ''value'')"
  by (auto simp: parse_programme_def Let_def split: sum.splits)

text \<open>
  Claim C10. The output has an \<^verbatim>\<open><episode-num>\<close> child exactly when the stored system
  and the stored value are both present and non-empty, and likewise a \<^verbatim>\<open><rating>\<close>
  child. Ingestion stores the value also when the element has no \<open>system\<close> attribute:
  the row then has a null system, and the output for that row has no such child.
\<close>

theorem paired_system_value:
  "(findall (programme_element ch tags p) ''episode-num'' \<noteq> []
      \<longleftrightarrow> truthy (pr_episode_num_system p) \<and> truthy (pr_episode_num_value p))
   \<and> (findall (programme_element ch tags p) ''rating'' \<noteq> []
      \<longleftrightarrow> truthy (pr_rating_system p) \<and> truthy (pr_rating_value p))
   \<and> (parse_programme k c x = Inr q \<and> find_elem x ''episode-num'' = Some en
        \<and> attrib_get en ''system'' = None \<longrightarrow>
        pr_episode_num_system q = None \<and> pr_episode_num_value q = text_of en
        \<and> findall (programme_element ch tags q) ''episode-num'' = [])
   \<and> (parse_programme k c x = Inr q \<and> find_elem x ''rating'' = Some r
        \<and> attrib_get r ''system'' = None \<longrightarrow>
        pr_rating_system q = None \<and> pr_rating_value q = sub_text (find_elem r ''value'')
        \<and> findall (programme_element ch tags q) ''rating'' = [])"
proof -
  have a: "findall (programme_element ch tags p) ''episode-num'' \<noteq> []
      \<longleftrightarrow> truthy (pr_episode_num_system p) \<and> truthy (pr_episode_num_value p)" for p
    by (simp add: findall_episode_num episode_num_element_def)
  have b: "findall (programme_element ch tags p) ''rating'' \<noteq> []
      \<longleftrightarrow> truthy (pr_rating_system p) \<and> truthy (pr_rating_value p)" for p
    by (simp add: findall_rating rating_element_def)
  have c: "pr_episode_num_system q = None \<and> pr_episode_num_value q = text_of en
        \<and> findall (programme_element ch tags q) ''episode-num'' = []"
    if "parse_programme k c x = Inr q" "find_elem x ''episode-num'' = Some en"
       "attrib_get en ''system'' = None"
    using parse_programme_episode_num [OF that(1)] that(2,3)
    by (simp add: findall_episode_num episode_num_element_def sub_attrib_def sub_text_def truthy_def)
  have d: "pr_rating_system q = None \<and> pr_rating_value q = sub_text (find_elem r ''value'')
        \<and> findall (programme_element ch tags q) ''rating'' = []"
    if "parse_programme k c x = Inr q" "find_elem x ''rating'' = Some r"
       "attrib_get r ''system'' = None"
    using parse_programme_episode_num [OF that(1)] that(2,3)
    by (simp add: findall_rating rating_element_def sub_attrib_def sub_text_def sub_elem_def truthy_def)
  show ?thesis using a b c d by blast
qed

theorem paired_system_value_witness:
  "parse_programme 1 (Some ''ch1'') news_programme = Inr news_row
   \<and> find_elem news_programme ''episode-num'' = Some (Element ''episode-num'' [] (Some ''S1E2'') [])
   \<and> pr_episode_num_system news_row = None
   \<and> pr_episode_num_value news_row = Some ''S1E2''
   \<and> findall (programme_element ''101'' [''uk''] news_row) ''episode-num'' = []"
proof -
  have parsed: "parse_programme 1 (Some ''ch1'') news_programme = Inr news_row"
    by code_simp
  have found: "find_elem news_programme ''episode-num''
      = Some (Element ''episode-num'' [] (Some ''S1E2'') [])"
    by code_simp
  have no_system: "attrib_get (Element ''episode-num'' [] (Some ''S1E2'') []) ''system'' = None"
    by code_simp
  from paired_system_value
         [where x = news_programme and q = news_row and k = 1 and c = "Some ''ch1''"
            and en = "Element ''episode-num'' [] (Some ''S1E2'') []"
            and ch = "''101''" and tags = "[''uk'']"]
       parsed found no_system
  show ?thesis by simp
qed

section \<open>The merged guide\<close>

lemma collect_eq:
  "collect env d irs =
     (map (info_of env) (filter (\<lambda>ir. ch_enabled (snd ir)) irs),
      map (data_of d) (map snd (filter (\<lambda>ir. ch_enabled (snd ir)) irs)))"
  by (induction irs) (auto simp: info_of_def data_of_def identity_def)

lemma filter_snd_zip:
  "length ns = length xs \<Longrightarrow> map snd (filter (\<lambda>ir. P (snd ir)) (zip ns xs)) = filter P xs"
  by (induction ns xs rule: list_induct2) auto

lemma channel_elements_Inr:
  "channel_elements cs = Inr xs \<Longrightarrow>
   map (\<lambda>x. attrib_get x ''id'') xs = map (\<lambda>c. Some (ci_channel_id c)) cs
   \<and> list_all (\<lambda>x. tag x = ''channel'') xs"
  by (induction cs arbitrary: xs)
     (auto simp: channel_element_def attrib_get_def split: sum.splits option.splits)

lemma channel_elements_Inl:
  "(\<exists>err. channel_elements cs = Inl err) \<longleftrightarrow> (\<exists>c \<in> set cs. ci_display_name c = None)"
  by (induction cs) (auto simp: channel_element_def split: sum.splits option.splits)

lemma tag_programme_element [simp]: "tag (programme_element ch tags p) = ''programme''"
  by (simp add: programme_element_def)

lemma filter_all_tag:
  "list_all (\<lambda>x. tag x = u) xs \<Longrightarrow> filter (\<lambda>c. tag c = t) xs = (if t = u then xs else [])"
  by (induction xs) auto

lemma programme_elements_tags:
  "list_all (\<lambda>x. tag x = ''programme'') (concat (map programme_elements cpds))"
  by (induction cpds) (auto simp: programme_elements_def list_all_iff)

lemma build_custom_epg_Inr:
  assumes "build_custom_epg env d = Inr doc"
  shows "map (\<lambda>x. attrib_get x ''id'') (findall doc ''channel'')
           = map (\<lambda>c. Some (identity c)) (enabled_channels d)"
    and "findall doc ''programme''
           = concat (map (\<lambda>c. map (programme_element (identity c) (ch_tags c)) (db_programmes d c))
                       (enabled_channels d))"
proof -
  let ?rs = "sort_key ch_number (channels d)"
  let ?irs = "filter (\<lambda>ir. ch_enabled (snd ir)) (zip [0..<length ?rs] ?rs)"
  define ps where "ps = concat (map programme_elements (map (data_of d) (map snd ?irs)))"
  from assms obtain xs where xs: "channel_elements (map (info_of env) ?irs) = Inr xs"
    and doc: "doc = Element ''tv''
                [(''generator-info-name'', ''TVH-IPTV-Config''),
                 (''source-info-name'', ''TVH-IPTV-Config - v0.1'')] None (xs @ ps)"
    by (auto simp: build_custom_epg_def Let_def collect_eq ps_def split: sum.splits)
  have snd_irs: "map snd ?irs = enabled_channels d"
    by (simp add: filter_snd_zip enabled_channels_def)
  have ptags: "list_all (\<lambda>x. tag x = ''programme'') ps"
    unfolding ps_def by (rule programme_elements_tags)
  from channel_elements_Inr [OF xs]
  have ids0: "map (\<lambda>x. attrib_get x ''id'') xs
      = map (\<lambda>c. Some (ci_channel_id c)) (map (info_of env) ?irs)"
    and tags: "list_all (\<lambda>x. tag x = ''channel'') xs"
    by simp_all
  have "map (\<lambda>c. Some (ci_channel_id c)) (map (info_of env) ?irs)
      = map (\<lambda>c. Some (identity c)) (map snd ?irs)"
    by (simp add: info_of_def)
  with ids0 have ids: "map (\<lambda>x. attrib_get x ''id'') xs
      = map (\<lambda>c. Some (identity c)) (enabled_channels d)"
    by (simp only: snd_irs)
  have chans: "findall doc ''channel'' = xs"
    by (simp add: doc findall_def filter_all_tag [OF tags] filter_all_tag [OF ptags])
  have progs: "findall doc ''programme'' = ps"
    by (simp add: doc findall_def filter_all_tag [OF tags] filter_all_tag [OF ptags])
  show "map (\<lambda>x. attrib_get x ''id'') (findall doc ''channel'')
           = map (\<lambda>c. Some (identity c)) (enabled_channels d)"
    by (simp only: chans ids)
  have "concat (map programme_elements (map (data_of d) (enabled_channels d)))
      = concat (map (\<lambda>c. map (programme_element (identity c) (ch_tags c)) (db_programmes d c))
                       (enabled_channels d))"
    by (simp add: programme_elements_def data_of_def comp_def)
  then show "findall doc ''programme''
           = concat (map (\<lambda>c. map (programme_element (identity c) (ch_tags c)) (db_programmes d c))
                       (enabled_channels d))"
    by (simp only: progs ps_def snd_irs)
qed

lemma build_custom_epg_Inl:
  "(\<exists>err. build_custom_epg env d = Inl err) \<longleftrightarrow> (\<exists>c \<in> set (enabled_channels d). ch_name c = None)"
proof -
  let ?rs = "sort_key ch_number (channels d)"
  let ?irs = "filter (\<lambda>ir. ch_enabled (snd ir)) (zip [0..<length ?rs] ?rs)"
  have snd_irs: "map snd ?irs = enabled_channels d"
    by (simp add: filter_snd_zip enabled_channels_def)
  have "(\<exists>err. build_custom_epg env d = Inl err)
      \<longleftrightarrow> (\<exists>err. channel_elements (map (info_of env) ?irs) = Inl err)"
    by (auto simp: build_custom_epg_def Let_def collect_eq split: sum.splits)
  also have "\<dots> \<longleftrightarrow> (\<exists>ir \<in> set ?irs. ch_name (snd ir) = None)"
    by (simp add: channel_elements_Inl info_of_def)
  also have "\<dots> \<longleftrightarrow> (\<exists>c \<in> set (map snd ?irs). ch_name c = None)"
    by (simp only: set_map bex_simps(7))
  finally show ?thesis by (simp only: snd_irs)
qed

lemma attrib_channel:
  "attrib_get (programme_element ch tags p) ''channel'' = Some ch"
  by (simp add: attrib_get_def programme_element_def opt_attr_def map_add_def[symmetric])


lemma sorted_enabled_channels: "sorted (map ch_number (enabled_channels d))"
  unfolding enabled_channels_def by (rule sorted_filter) (rule sorted_sort_key)

lemma set_enabled_channels: "set (enabled_channels d) = {c \<in> set (channels d). ch_enabled c}"
  by (auto simp: enabled_channels_def)

lemma sorted_db_programmes:
  "sorted (map (\<lambda>p. (pr_channel_id p, pr_start p)) (db_programmes d c))"
  unfolding db_programmes_def by (rule sorted_sort_key)

lemma same_key_same_row:
  assumes "distinct (map ec_id rows)" "r1 \<in> set rows" "r2 \<in> set rows" "ec_id r1 = ec_id r2"
  shows "r1 = r2"
  using assms by (meson distinct_map inj_on_eq_iff)

lemma db_programmes_unresolved:
  assumes "db_ok d" "\<not> resolves d c"
  shows "db_programmes d c = []"
proof -
  have "\<not> (list_ex (\<lambda>r. ec_id r = pr_epg_channel_id p \<and> Some (ec_epg_id r) = ch_guide_id c)
                  (epg_channels d)
          \<and> list_ex (\<lambda>r. ec_id r = pr_epg_channel_id p \<and> ec_channel_id r = ch_guide_channel_id c)
                  (epg_channels d))" for p
  proof
    assume "list_ex (\<lambda>r. ec_id r = pr_epg_channel_id p \<and> Some (ec_epg_id r) = ch_guide_id c)
                  (epg_channels d)
          \<and> list_ex (\<lambda>r. ec_id r = pr_epg_channel_id p \<and> ec_channel_id r = ch_guide_channel_id c)
                  (epg_channels d)"
    then obtain r1 r2 where r1: "r1 \<in> set (epg_channels d)" "ec_id r1 = pr_epg_channel_id p"
        "Some (ec_epg_id r1) = ch_guide_id c"
      and r2: "r2 \<in> set (epg_channels d)" "ec_id r2 = pr_epg_channel_id p"
        "ec_channel_id r2 = ch_guide_channel_id c"
      by (auto simp: list_ex_iff)
    from assms(1) have "distinct (map ec_id (epg_channels d))" by (simp add: db_ok_def)
    from same_key_same_row [OF this r1(1) r2(1)] r1(2) r2(2) have "r1 = r2" by simp
    with r1 r2 have "resolves d c" by (auto simp: resolves_def list_ex_iff)
    with assms(2) show False by simp
  qed
  then have "filter (\<lambda>p. list_ex (\<lambda>r. ec_id r = pr_epg_channel_id p
                                       \<and> Some (ec_epg_id r) = ch_guide_id c) (epg_channels d)
          \<and> list_ex (\<lambda>r. ec_id r = pr_epg_channel_id p \<and> ec_channel_id r = ch_guide_channel_id c)
                  (epg_channels d)) (epg_channel_programmes d) = []"
    unfolding filter_empty_conv by blast
  then show ?thesis by (simp add: db_programmes_def)
qed

lemma db_programmes_channels_update:
  "db_programmes (d\<lparr>channels := cs\<rparr>) c = db_programmes d c"
  by (simp add: db_programmes_def)

lemma blank_channel_elements:
  "map_sum id (map blank_logo) (channel_elements cs)
     = channel_elements (map (ci_logo_url_update (\<lambda>u. [])) cs)"
  by (induction cs)
     (auto simp: channel_element_def blank_logo_def blank_icon_def text_elem_def
           split: sum.splits option.splits)

lemma blank_logo_programmes:
  "list_all (\<lambda>x. tag x = ''programme'') ps \<Longrightarrow> map blank_logo ps = ps"
  by (induction ps) (auto simp: blank_logo_def)

lemma without_logos_build:
  "map_sum id without_logos (build_custom_epg env d)
     = (let results = sort_key ch_number (channels d);
            irs = filter (\<lambda>ir. ch_enabled (snd ir)) (zip [0..<length results] results)
        in case channel_elements
                  (map (\<lambda>ir. \<lparr>ci_channel_id = identity (snd ir), ci_display_name = ch_name (snd ir),
                              ci_logo_url = []\<rparr>) irs) of
             Inl err \<Rightarrow> Inl err
           | Inr channel_elems \<Rightarrow>
               Inr (Element ''tv''
                      [(''generator-info-name'', ''TVH-IPTV-Config''),
                       (''source-info-name'', ''TVH-IPTV-Config - v0.1'')]
                      None
                      (channel_elems
                       @ concat (map programme_elements (map (data_of d) (map snd irs))))))"
proof -
  let ?rs = "sort_key ch_number (channels d)"
  let ?irs = "filter (\<lambda>ir. ch_enabled (snd ir)) (zip [0..<length ?rs] ?rs)"
  define ps where "ps = concat (map programme_elements (map (data_of d) (map snd ?irs)))"
  have ptags: "list_all (\<lambda>x. tag x = ''programme'') ps"
    unfolding ps_def by (rule programme_elements_tags)
  have blanked: "map (ci_logo_url_update (\<lambda>u. [])) (map (info_of env) ?irs)
      = map (\<lambda>ir. \<lparr>ci_channel_id = identity (snd ir), ci_display_name = ch_name (snd ir),
                              ci_logo_url = []\<rparr>) ?irs"
    by (simp add: info_of_def)
  have build: "build_custom_epg env d
      = (case channel_elements (map (info_of env) ?irs) of
           Inl err \<Rightarrow> Inl err
         | Inr channel_elems \<Rightarrow>
               Inr (Element ''tv''
                      [(''generator-info-name'', ''TVH-IPTV-Config''),
                       (''source-info-name'', ''TVH-IPTV-Config - v0.1'')]
                      None (channel_elems @ ps)))"
    by (simp add: build_custom_epg_def Let_def collect_eq ps_def split: sum.splits)
  have "map_sum id without_logos (build_custom_epg env d)
      = (case map_sum id (map blank_logo) (channel_elements (map (info_of env) ?irs)) of
           Inl err \<Rightarrow> Inl err
         | Inr channel_elems \<Rightarrow>
               Inr (Element ''tv''
                      [(''generator-info-name'', ''TVH-IPTV-Config''),
                       (''source-info-name'', ''TVH-IPTV-Config - v0.1'')]
                      None (channel_elems @ ps)))"
    unfolding build using blank_logo_programmes [OF ptags]
    by (cases "channel_elements (map (info_of env) ?irs)") (simp_all add: without_logos_def)
  then show ?thesis
    by (simp only: blank_channel_elements blanked Let_def ps_def)
qed

text \<open>The rows that the programme query of a channel returns.\<close>

lemma db_programmes_rows:
  "mset (db_programmes d c)
     = {#p \<in># mset (epg_channel_programmes d).
          (\<exists>r \<in> set (epg_channels d).
              ec_id r = pr_epg_channel_id p \<and> Some (ec_epg_id r) = ch_guide_id c)
          \<and> (\<exists>r \<in> set (epg_channels d).
              ec_id r = pr_epg_channel_id p \<and> ec_channel_id r = ch_guide_channel_id c)#}"
  by (simp add: db_programmes_def list_ex_iff)

lemma db_programmes_supplies:
  assumes "distinct (map ec_id (epg_channels d))"
  shows "mset (db_programmes d c) = {#p \<in># mset (epg_channel_programmes d). supplies d c p#}"
proof -
  have "((\<exists>r \<in> set (epg_channels d).
              ec_id r = pr_epg_channel_id p \<and> Some (ec_epg_id r) = ch_guide_id c)
          \<and> (\<exists>r \<in> set (epg_channels d).
              ec_id r = pr_epg_channel_id p \<and> ec_channel_id r = ch_guide_channel_id c))
      = supplies d c p" for p
  proof
    assume "(\<exists>r \<in> set (epg_channels d).
              ec_id r = pr_epg_channel_id p \<and> Some (ec_epg_id r) = ch_guide_id c)
          \<and> (\<exists>r \<in> set (epg_channels d).
              ec_id r = pr_epg_channel_id p \<and> ec_channel_id r = ch_guide_channel_id c)"
    then obtain r1 r2 where r1: "r1 \<in> set (epg_channels d)" "ec_id r1 = pr_epg_channel_id p"
        "Some (ec_epg_id r1) = ch_guide_id c"
      and r2: "r2 \<in> set (epg_channels d)" "ec_id r2 = pr_epg_channel_id p"
        "ec_channel_id r2 = ch_guide_channel_id c"
      by auto
    from same_key_same_row [OF assms r1(1) r2(1)] r1(2) r2(2) have "r1 = r2" by simp
    with r1 r2 show "supplies d c p" by (auto simp: supplies_def list_ex_iff)
  next
    assume "supplies d c p"
    then show "(\<exists>r \<in> set (epg_channels d).
              ec_id r = pr_epg_channel_id p \<and> Some (ec_epg_id r) = ch_guide_id c)
          \<and> (\<exists>r \<in> set (epg_channels d).
              ec_id r = pr_epg_channel_id p \<and> ec_channel_id r = ch_guide_channel_id c)"
      by (auto simp: supplies_def list_ex_iff)
  qed
  with db_programmes_rows [of d c] show ?thesis by simp
qed

text \<open>
  Claim C5. When \<^verbatim>\<open>build_custom_epg\<close> returns a document: the channels it processes
  are exactly the enabled ones, in ascending order of the channel number; the
  \<^verbatim>\<open><channel>\<close> elements are theirs, in that order, under the channel number as a
  string; the \<^verbatim>\<open><programme>\<close> elements are, channel after channel, the programmes of
  the channel query; the query returns, ordered by upstream id and start, each programme
  row once that hangs on a channel row of the guide of the channel and on a channel row
  with the upstream id the channel is mapped to, which is one and the same row when the
  keys of the channel rows are distinct; and the \<open>channel\<close> attribute of each element is
  the number string of the output channel.
\<close>

theorem synthesis_order_and_identity:
  assumes "build_custom_epg env d = Inr doc"
  shows "set (enabled_channels d) = {c \<in> set (channels d). ch_enabled c}
       \<and> sorted (map ch_number (enabled_channels d))
       \<and> map (\<lambda>x. attrib_get x ''id'') (findall doc ''channel'')
           = map (\<lambda>c. Some (str_int_opt (ch_number c))) (enabled_channels d)
       \<and> findall doc ''programme''
           = concat (map (\<lambda>c. map (programme_element (str_int_opt (ch_number c)) (ch_tags c))
                                 (db_programmes d c))
                       (enabled_channels d))
       \<and> (\<forall>c. sorted (map (\<lambda>p. (pr_channel_id p, pr_start p)) (db_programmes d c)))
       \<and> (\<forall>c. mset (db_programmes d c)
                = {#p \<in># mset (epg_channel_programmes d).
                     (\<exists>r \<in> set (epg_channels d).
                         ec_id r = pr_epg_channel_id p \<and> Some (ec_epg_id r) = ch_guide_id c)
                     \<and> (\<exists>r \<in> set (epg_channels d).
                         ec_id r = pr_epg_channel_id p
                         \<and> ec_channel_id r = ch_guide_channel_id c)#})
       \<and> (distinct (map ec_id (epg_channels d)) \<longrightarrow>
            (\<forall>c. mset (db_programmes d c)
                   = {#p \<in># mset (epg_channel_programmes d). supplies d c p#}))
       \<and> (\<forall>c tags p. attrib_get (programme_element (str_int_opt (ch_number c)) tags p) ''channel''
             = Some (str_int_opt (ch_number c)))"
proof -
  note built = build_custom_epg_Inr [OF assms]
  have channels: "map (\<lambda>x. attrib_get x ''id'') (findall doc ''channel'')
      = map (\<lambda>c. Some (str_int_opt (ch_number c))) (enabled_channels d)"
    using built by (simp add: identity_def generate_epg_channel_id_def)
  have programmes: "findall doc ''programme''
      = concat (map (\<lambda>c. map (programme_element (str_int_opt (ch_number c)) (ch_tags c))
                            (db_programmes d c))
                  (enabled_channels d))"
    using built by (simp add: identity_def generate_epg_channel_id_def)
  from set_enabled_channels sorted_enabled_channels channels programmes sorted_db_programmes
    db_programmes_rows db_programmes_supplies attrib_channel
  show ?thesis by blast
qed

theorem synthesis_order_and_identity_witness:
  "build_custom_epg example_env wide_ingested_db = Inr wide_output
   \<and> map ch_id (channels wide_ingested_db) = [5, 4]
   \<and> map ch_id (enabled_channels wide_ingested_db) = [4, 5]
   \<and> map (\<lambda>x. attrib_get x ''id'') (findall wide_output ''channel'')
       = [Some ''201'', Some ''202'']
   \<and> map pr_title (epg_channel_programmes wide_ingested_db)
       = [Some ''Late'', Some ''Other'', Some ''Early'']
   \<and> map pr_title (db_programmes wide_ingested_db alpha_channel)
       = [Some ''Early'', Some ''Late'']
   \<and> mset (db_programmes wide_ingested_db alpha_channel)
       = {#p \<in># mset (epg_channel_programmes wide_ingested_db).
            supplies wide_ingested_db alpha_channel p#}
   \<and> map (\<lambda>x. (attrib_get x ''channel'', findtext x ''title''))
       (findall wide_output ''programme'')
       = [(Some ''201'', Some ''Early''), (Some ''201'', Some ''Late''),
          (Some ''202'', Some ''Other'')]
   \<and> findall wide_output ''programme''
       = concat (map (\<lambda>c. map (programme_element (str_int_opt (ch_number c)) (ch_tags c))
                             (db_programmes wide_ingested_db c))
                   (enabled_channels wide_ingested_db))"
proof -
  have built: "build_custom_epg example_env wide_ingested_db = Inr wide_output"
    by code_simp
  have keys: "distinct (map ec_id (epg_channels wide_ingested_db))"
    by code_simp
  have facts: "map ch_id (channels wide_ingested_db) = [5, 4]"
    "map ch_id (enabled_channels wide_ingested_db) = [4, 5]"
    "map (\<lambda>x. attrib_get x ''id'') (findall wide_output ''channel'')
       = [Some ''201'', Some ''202'']"
    "map pr_title (epg_channel_programmes wide_ingested_db)
       = [Some ''Late'', Some ''Other'', Some ''Early'']"
    "map pr_title (db_programmes wide_ingested_db alpha_channel)
       = [Some ''Early'', Some ''Late'']"
    "map (\<lambda>x. (attrib_get x ''channel'', findtext x ''title''))
       (findall wide_output ''programme'')
       = [(Some ''201'', Some ''Early''), (Some ''201'', Some ''Late''),
          (Some ''202'', Some ''Other'')]"
    by code_simp+
  from synthesis_order_and_identity [OF built] keys built facts show ?thesis by blast
qed

text \<open>
  Claim C6, as amended. An enabled channel whose guide mapping does not resolve has no
  programmes in the channel query, so it contributes no \<^verbatim>\<open><programme>\<close> element. The
  build raises only when an enabled channel has no name, whatever the mappings are. The
  programmes of the document are the programmes of each enabled channel, one channel
  after the other, and those of one channel do not depend on the other rows of the
  channel table. The \<^verbatim>\<open><channel>\<close> elements are those of the enabled channels: a
  disabled channel is left out, an enabled channel without mapping is not.
\<close>

theorem mapping_gaps_degrade:
  "(db_ok d \<and> \<not> resolves d c \<longrightarrow> db_programmes d c = [])
   \<and> ((\<exists>err. build_custom_epg env d = Inl err)
        \<longleftrightarrow> (\<exists>c \<in> set (enabled_channels d). ch_name c = None))
   \<and> (build_custom_epg env d = Inr doc \<longrightarrow>
        findall doc ''programme''
          = concat (map (\<lambda>c. map (programme_element (identity c) (ch_tags c)) (db_programmes d c))
                      (enabled_channels d))
        \<and> map (\<lambda>x. attrib_get x ''id'') (findall doc ''channel'')
          = map (\<lambda>c. Some (identity c)) (filter ch_enabled (sort_key ch_number (channels d))))
   \<and> db_programmes (d\<lparr>channels := cs\<rparr>) c = db_programmes d c"
  using db_programmes_unresolved [of d c] build_custom_epg_Inl [of env d]
    build_custom_epg_Inr [of env d doc] db_programmes_channels_update [where d = d and cs = cs and c = c]
  by (simp add: enabled_channels_def)

theorem mapping_gaps_degrade_witness:
  "db_ok ingested_db \<and> \<not> resolves ingested_db unmapped_channel
   \<and> db_programmes ingested_db unmapped_channel = []
   \<and> build_custom_epg example_env ingested_db = Inr (example_output_at ''1700000000.5'')
   \<and> map (\<lambda>x. attrib_get x ''id'') (findall (example_output_at ''1700000000.5'') ''channel'')
       = map (\<lambda>c. Some (identity c)) (filter ch_enabled (sort_key ch_number (channels ingested_db)))"
proof -
  have ok: "db_ok ingested_db" by code_simp
  have gap: "\<not> resolves ingested_db unmapped_channel" by code_simp
  have built: "build_custom_epg example_env ingested_db = Inr (example_output_at ''1700000000.5'')"
    by code_simp
  from mapping_gaps_degrade
         [where d = ingested_db and c = unmapped_channel and env = example_env
            and doc = "example_output_at ''1700000000.5''" and cs = "[]"]
       ok gap built
  show ?thesis by blast
qed

text \<open>
  Claim C6 as it is written fails in its last part: channel 102 of the example is
  enabled and has no guide mapping, and the document has a \<^verbatim>\<open><channel>\<close> element for
  it.
\<close>

theorem unmapped_channel_not_excluded:
  "ch_enabled unmapped_channel \<and> ch_guide_id unmapped_channel = None
   \<and> unmapped_channel \<in> set (channels ingested_db)
   \<and> \<not> resolves ingested_db unmapped_channel
   \<and> build_custom_epg example_env ingested_db = Inr (example_output_at ''1700000000.5'')
   \<and> length (findall (example_output_at ''1700000000.5'') ''channel'') = 2
   \<and> attrib_get (findall (example_output_at ''1700000000.5'') ''channel'' ! 1) ''id''
       = Some ''102''"
  by code_simp

text \<open>
  Claim C9. The time enters the document only through the logo references: two builds
  from the same store at different times give the same result once the \<^verbatim>\<open>src\<close> of the
  channel icons is blanked (the same exception, or the same document).
\<close>

theorem synthesis_idempotent:
  "map_sum id without_logos (build_custom_epg (env\<lparr>now := clock\<rparr>) d)
     = map_sum id without_logos (build_custom_epg env d)"
  by (simp only: without_logos_build)

theorem synthesis_idempotent_witness:
  "build_custom_epg example_env ingested_db = Inr (example_output_at ''1700000000.5'')
   \<and> build_custom_epg (example_env\<lparr>now := \<lambda>i. ''1700000099.25''\<rparr>) ingested_db
       = Inr (example_output_at ''1700000099.25'')
   \<and> without_logos (example_output_at ''1700000099.25'')
       = without_logos (example_output_at ''1700000000.5'')"
proof -
  have first: "build_custom_epg example_env ingested_db = Inr (example_output_at ''1700000000.5'')"
    by code_simp
  have second: "build_custom_epg (example_env\<lparr>now := \<lambda>i. ''1700000099.25''\<rparr>) ingested_db
      = Inr (example_output_at ''1700000099.25'')"
    by code_simp
  from synthesis_idempotent
         [where env = example_env and clock = "\<lambda>i. ''1700000099.25''" and d = ingested_db] first second
  show ?thesis by simp
qed

section \<open>Successful ingestion\<close>


subsection \<open>Keys\<close>

lemma fold_max_ge: "a \<le> fold max ids (a::int)"
proof (induction ids arbitrary: a)
  case Nil
  then show ?case by simp
next
  case (Cons y ys)
  have "a \<le> max y a" by simp
  also have "max y a \<le> fold max ys (max y a)" by (rule Cons.IH)
  finally show ?case by simp
qed

lemma fold_max_mem: "x \<in> set ids \<Longrightarrow> x \<le> fold max ids (a::int)"
proof (induction ids arbitrary: a)
  case Nil
  then show ?case by simp
next
  case (Cons y ys)
  show ?case
  proof (cases "x = y")
    case True
    have "max y a \<le> fold max ys (max y a)" by (rule fold_max_ge)
    with True show ?thesis by simp
  next
    case False
    with Cons show ?thesis by simp
  qed
qed

lemma next_id_fresh: "x \<in> set ids \<Longrightarrow> x < next_id ids"
  using fold_max_mem [of x ids 0] by (simp add: next_id_def)

subsection \<open>The channel rows\<close>

lemma insert_epg_channels_rows:
  "\<exists>rows. insert_epg_channels e items table = table @ rows
      \<and> map item_of rows = items
      \<and> (\<forall>r \<in> set rows. ec_epg_id r = e)
      \<and> (distinct (map ec_id table) \<longrightarrow> distinct (map ec_id (table @ rows)))"
proof (induction items arbitrary: table)
  case Nil
  then show ?case by simp
next
  case (Cons it its)
  let ?row = "\<lparr>ec_id = next_id (map ec_id table), ec_epg_id = e,
                ec_channel_id = it_channel_id it, ec_name = it_name it,
                ec_icon_url = it_icon_url it\<rparr>"
  from Cons.IH [of "table @ [?row]"] obtain rows where
    rows: "insert_epg_channels e its (table @ [?row]) = (table @ [?row]) @ rows"
      "map item_of rows = its" "\<forall>r \<in> set rows. ec_epg_id r = e"
      "distinct (map ec_id (table @ [?row])) \<longrightarrow> distinct (map ec_id ((table @ [?row]) @ rows))"
    by blast
  have fresh: "distinct (map ec_id table) \<Longrightarrow> distinct (map ec_id (table @ [?row]))"
    using next_id_fresh [of _ "map ec_id table"] by auto
  show ?case
  proof (intro exI [of _ "?row # rows"] conjI)
    show "insert_epg_channels e (it # its) table = table @ ?row # rows"
      using rows(1) by simp
    show "map item_of (?row # rows) = it # its"
      using rows(2) by (simp add: item_of_def)
    show "\<forall>r \<in> set (?row # rows). ec_epg_id r = e"
      using rows(3) by simp
    show "distinct (map ec_id table) \<longrightarrow> distinct (map ec_id (table @ ?row # rows))"
      using rows(4) fresh by simp
  qed
qed

lemma clear_channels:
  assumes "distinct (map ec_id (epg_channels d))"
  shows "epg_channels (clear_epg_channel_data e d) = filter (\<lambda>c. ec_epg_id c \<noteq> e) (epg_channels d)"
proof -
  let ?ids = "map ec_id (filter (\<lambda>c. ec_epg_id c = e) (epg_channels d))"
  have "(ec_id c \<notin> set ?ids) = (ec_epg_id c \<noteq> e)" if "c \<in> set (epg_channels d)" for c
  proof
    assume "ec_id c \<notin> set ?ids"
    with that show "ec_epg_id c \<noteq> e" by auto
  next
    assume ne: "ec_epg_id c \<noteq> e"
    show "ec_id c \<notin> set ?ids"
    proof
      assume "ec_id c \<in> set ?ids"
      then obtain c' where c': "c' \<in> set (epg_channels d)" "ec_epg_id c' = e" "ec_id c' = ec_id c"
        by auto
      from same_key_same_row [OF assms c'(1) that c'(3)] c'(2) ne show False by simp
    qed
  qed
  then have eq: "filter (\<lambda>c. ec_id c \<notin> set ?ids) (epg_channels d)
      = filter (\<lambda>c. ec_epg_id c \<noteq> e) (epg_channels d)"
    by (intro filter_cong) simp_all
  show ?thesis
  proof (cases "?ids = []")
    case True
    then have "\<forall>c \<in> set (epg_channels d). ec_epg_id c \<noteq> e"
      by (simp add: filter_empty_conv)
    then have "filter (\<lambda>c. ec_epg_id c \<noteq> e) (epg_channels d) = epg_channels d"
      by (simp add: filter_id_conv)
    with True show ?thesis by (simp add: clear_epg_channel_data_def)
  next
    case False
    then show ?thesis using eq by (simp add: clear_epg_channel_data_def Let_def)
  qed
qed

lemma clear_programmes:
  "set (epg_channel_programmes (clear_epg_channel_data e d))
     = {p \<in> set (epg_channel_programmes d).
          pr_epg_channel_id p \<notin> ec_id ` {c \<in> set (epg_channels d). ec_epg_id c = e}}"
  by (auto simp: clear_epg_channel_data_def Let_def filter_empty_conv)

lemma clear_db_ok:
  assumes "db_ok d"
  shows "db_ok (clear_epg_channel_data e d)"
proof -
  from assms have dist: "distinct (map ec_id (epg_channels d))"
    and refs: "\<forall>p \<in> set (epg_channel_programmes d). pr_epg_channel_id p \<in> ec_id ` set (epg_channels d)"
    by (simp_all add: db_ok_def list_all_iff)
  have "pr_epg_channel_id p \<in> ec_id ` set (filter (\<lambda>c. ec_epg_id c \<noteq> e) (epg_channels d))"
    if "p \<in> set (epg_channel_programmes (clear_epg_channel_data e d))" for p
  proof -
    from that have p: "p \<in> set (epg_channel_programmes d)"
      and none: "pr_epg_channel_id p \<notin> ec_id ` {c \<in> set (epg_channels d). ec_epg_id c = e}"
      by (simp_all add: clear_programmes)
    from refs p obtain c where "c \<in> set (epg_channels d)" "ec_id c = pr_epg_channel_id p" by auto
    with none show ?thesis by force
  qed
  with dist show ?thesis
    by (simp add: db_ok_def list_all_iff clear_channels distinct_map_filter)
qed

lemma clear_source_channels:
  "distinct (map ec_id (epg_channels d)) \<Longrightarrow> source_channels e (clear_epg_channel_data e d) = []"
  by (simp add: source_channels_def clear_channels)


subsection \<open>The programme rows\<close>

lemma bulk_save_objects_append:
  "bulk_save_objects (xs @ ys) table = bulk_save_objects ys (bulk_save_objects xs table)"
  by (induction xs arbitrary: table) auto

lemma flush_save:
  "bulk_save_objects (fst (flush items table) @ xs) (snd (flush items table))
     = bulk_save_objects (items @ xs) table"
  by (simp add: flush_def bulk_save_objects_append)

lemma saved_simps [simp]:
  "saved (Inl err) = Inl err"
  "saved (Inr (items, table)) = Inr (bulk_save_objects items table)"
  by (simp_all add: saved_def)

lemma programmes_loop_accepted:
  "saved (programmes_loop m ps items table)
     = (case accepted m ps of
          Inl err \<Rightarrow> Inl err
        | Inr its \<Rightarrow> Inr (bulk_save_objects (items @ its) table))"
proof (induction ps arbitrary: items table)
  case Nil
  then show ?case by simp
next
  case (Cons p ps)
  show ?case
  proof (cases "m (attrib_get p ''channel'')")
    case None
    have "saved (programmes_loop m ps (fst (flush items table)) (snd (flush items table)))
        = (case accepted m ps of
             Inl err \<Rightarrow> Inl err
           | Inr its \<Rightarrow> Inr (bulk_save_objects (items @ its) table))"
      using Cons.IH [of "fst (flush items table)" "snd (flush items table)"]
      by (simp only: flush_save)
    with None show ?thesis by simp
  next
    case (Some k)
    show ?thesis
    proof (cases "parse_programme k (attrib_get p ''channel'') p")
      case (Inl err)
      with Some show ?thesis by simp
    next
      case (Inr item)
      have "saved (programmes_loop m ps (fst (flush items table) @ [item]) (snd (flush items table)))
          = (case accepted m ps of
               Inl err \<Rightarrow> Inl err
             | Inr its \<Rightarrow> Inr (bulk_save_objects (items @ item # its) table))"
        using Cons.IH [of "fst (flush items table) @ [item]" "snd (flush items table)"]
        by (simp only: append_assoc append_Cons append_Nil flush_save)
      with Some Inr show ?thesis
        by (cases "accepted m ps") simp_all
    qed
  qed
qed

lemma parse_programme_keys:
  "parse_programme k c x = Inr q \<Longrightarrow>
   pr_id q = None \<and> pr_epg_channel_id q = k \<and> pr_channel_id q = c"
  by (auto simp: parse_programme_def Let_def split: sum.splits)

lemma accepted_keys:
  "accepted m ps = Inr its \<Longrightarrow>
   \<forall>q \<in> set its. pr_id q = None \<and> m (pr_channel_id q) = Some (pr_epg_channel_id q)"
proof (induction ps arbitrary: its)
  case Nil
  then show ?case by simp
next
  case (Cons p ps)
  show ?case
  proof (cases "m (attrib_get p ''channel'')")
    case None
    with Cons show ?thesis by simp
  next
    case (Some k)
    with Cons.prems obtain item rest where
      item: "parse_programme k (attrib_get p ''channel'') p = Inr item"
      and rest: "accepted m ps = Inr rest" and its: "its = item # rest"
      by (auto split: sum.splits)
    from parse_programme_keys [OF item] Some Cons.IH [OF rest] its show ?thesis by simp
  qed
qed

lemma bulk_save_objects_new:
  "\<forall>q \<in> set its. pr_id q = None \<Longrightarrow>
   \<exists>rows. bulk_save_objects its table = table @ rows
      \<and> map (pr_id_update (\<lambda>i. None)) rows = its"
proof (induction its arbitrary: table)
  case Nil
  then show ?case by simp
next
  case (Cons q qs)
  let ?row = "q\<lparr>pr_id := Some (next_id (concat (map (\<lambda>r. case pr_id r of None \<Rightarrow> []
                                                          | Some i \<Rightarrow> [i]) table)))\<rparr>"
  from Cons.prems have none: "pr_id q = None" and rest: "\<forall>q \<in> set qs. pr_id q = None"
    by simp_all
  from Cons.IH [OF rest, of "table @ [?row]"] obtain rows where
    rows: "bulk_save_objects qs (table @ [?row]) = (table @ [?row]) @ rows"
      "map (pr_id_update (\<lambda>i. None)) rows = qs"
    by blast
  have restored: "pr_id_update (\<lambda>i. None) ?row = q"
    using none by (cases q) simp
  show ?case
  proof (intro exI [of _ "?row # rows"] conjI)
    show "bulk_save_objects (q # qs) table = table @ ?row # rows"
      using rows(1) none by (simp add: save_object_def)
    show "map (pr_id_update (\<lambda>i. None)) (?row # rows) = q # qs"
      using rows(2) restored by simp
  qed
qed

lemma build_channel_ids_Inr:
  "build_channel_ids e table l m0 = Inr m \<Longrightarrow>
   m = (\<lambda>c. if c \<in> set l
            then map_option ec_id (List.find (\<lambda>r. ec_channel_id r = c \<and> ec_epg_id r = e) table)
            else m0 c)"
proof (induction l arbitrary: m0)
  case Nil
  then show ?case by simp
next
  case (Cons c cs)
  from Cons.prems obtain r where
    r: "List.find (\<lambda>r. ec_channel_id r = c \<and> ec_epg_id r = e) table = Some r"
    and rest: "build_channel_ids e table cs (m0(c \<mapsto> ec_id r)) = Inr m"
    by (auto split: option.splits)
  from Cons.IH [OF rest] r show ?case by (auto simp: fun_eq_iff)
qed

lemma channel_key_None:
  "c \<notin> ec_channel_id ` set (source_channels e d) \<Longrightarrow> channel_key e d c = None"
  by (auto simp: channel_key_def source_channels_def find_None_iff)

lemma channel_key_Some:
  assumes "channel_key e d c = Some k"
  shows "\<exists>r \<in> set (source_channels e d). ec_id r = k \<and> ec_channel_id r = c"
proof -
  from assms obtain r where
    r: "List.find (\<lambda>r. ec_channel_id r = c \<and> ec_epg_id r = e) (epg_channels d) = Some r"
    and k: "k = ec_id r"
    by (auto simp: channel_key_def)
  from r obtain i where "i < length (epg_channels d)" "r = epg_channels d ! i"
    "ec_channel_id r = c" "ec_epg_id r = e"
    by (auto simp: find_Some_iff)
  then have "r \<in> set (source_channels e d)" "ec_channel_id r = c"
    by (simp_all add: source_channels_def)
  with k show ?thesis by blast
qed

lemma store_epg_programmes_success:
  assumes "store_epg_programmes (Some f) e (Some l) d = (Inr u, d3)"
    and "set l = ec_channel_id ` set (source_channels e d)"
  shows "\<exists>root its prows. et_parse f = Some root
      \<and> accepted (channel_key e d) (iterfind root ''programme'') = Inr its
      \<and> d3 = d\<lparr>epg_channel_programmes := epg_channel_programmes d @ prows\<rparr>
      \<and> map (pr_id_update (\<lambda>i. None)) prows = its"
proof -
  from assms(1) obtain root m items table where
    root: "et_parse f = Some root"
    and m: "build_channel_ids e (epg_channels d) l Map.empty = Inr m"
    and loop: "programmes_loop m (iterfind root ''programme'') [] (epg_channel_programmes d)
        = Inr (items, table)"
    and d3: "d3 = d\<lparr>epg_channel_programmes := bulk_save_objects items table\<rparr>"
    by (auto simp: store_epg_programmes_def split: option.splits sum.splits prod.splits)
  have key: "m = channel_key e d"
  proof
    fix c
    show "m c = channel_key e d c"
    proof (cases "c \<in> set l")
      case True
      with build_channel_ids_Inr [OF m] show ?thesis by (simp add: channel_key_def)
    next
      case False
      with assms(2) have "channel_key e d c = None" by (simp add: channel_key_None)
      with False build_channel_ids_Inr [OF m] show ?thesis by simp
    qed
  qed
  from programmes_loop_accepted [of m "iterfind root ''programme''" "[]" "epg_channel_programmes d"]
       loop
  obtain its where its: "accepted m (iterfind root ''programme'') = Inr its"
    and saved: "bulk_save_objects items table = bulk_save_objects its (epg_channel_programmes d)"
    by (cases "accepted m (iterfind root ''programme'')") auto
  from accepted_keys [OF its] have "\<forall>q \<in> set its. pr_id q = None" by simp
  from bulk_save_objects_new [OF this, of "epg_channel_programmes d"] obtain prows where
    prows: "bulk_save_objects its (epg_channel_programmes d) = epg_channel_programmes d @ prows"
      "map (pr_id_update (\<lambda>i. None)) prows = its"
    by blast
  from root its key d3 saved prows show ?thesis by auto
qed


lemma store_epg_channels_success:
  assumes "distinct (map ec_id (epg_channels d))" and "source_channels e d = []"
    and "store_epg_channels (Some f) e d = (Inr l, d2)"
  shows "\<exists>root items rows. et_fromstring f = Some root
      \<and> channel_items (iterfind root ''channel'') = Inr items
      \<and> l = Some (map it_channel_id items)
      \<and> d2 = d\<lparr>epg_channels := epg_channels d @ rows\<rparr>
      \<and> map item_of rows = items
      \<and> (\<forall>r \<in> set rows. ec_epg_id r = e)
      \<and> distinct (map ec_id (epg_channels d @ rows))"
proof -
  from assms(3) obtain root items where
    root: "et_fromstring f = Some root"
    and items: "channel_items (iterfind root ''channel'') = Inr items"
    and l: "l = Some (map it_channel_id items)"
    and d2: "d2 = d\<lparr>epg_channels :=
        insert_epg_channels e items (filter (\<lambda>c. ec_epg_id c \<noteq> e) (epg_channels d))\<rparr>"
    by (auto simp: store_epg_channels_def split: option.splits sum.splits)
  from assms(2) have keep: "filter (\<lambda>c. ec_epg_id c \<noteq> e) (epg_channels d) = epg_channels d"
    by (simp add: source_channels_def filter_id_conv filter_empty_conv)
  from insert_epg_channels_rows [of e items "epg_channels d"] assms(1) obtain rows where
    "insert_epg_channels e items (epg_channels d) = epg_channels d @ rows"
    "map item_of rows = items" "\<forall>r \<in> set rows. ec_epg_id r = e"
    "distinct (map ec_id (epg_channels d @ rows))"
    by blast
  with root items l d2 keep show ?thesis by auto
qed


subsection \<open>One successful ingestion\<close>

lemma import_epg_data_success:
  assumes ok: "db_ok d" and imp: "import_epg_data net e d = (None, d')"
  shows "\<exists>src f root_c root_p items its.
      read_config_one_epg d e = Some src \<and> net (epg_url src) = Fetched f
      \<and> et_fromstring f = Some root_c \<and> et_parse f = Some root_p
      \<and> channel_items (iterfind root_c ''channel'') = Inr items
      \<and> map item_of (source_channels e d') = items
      \<and> accepted (channel_key e d') (iterfind root_p ''programme'') = Inr its
      \<and> map (pr_id_update (\<lambda>i. None)) (source_programmes e d') = its
      \<and> db_ok d' \<and> epgs d' = epgs d"
proof -
  let ?d1 = "clear_epg_channel_data e d"
  from imp obtain src f l d2 u where
    src: "read_config_one_epg d e = Some src" and net: "net (epg_url src) = Fetched f"
    and sc: "store_epg_channels (Some f) e ?d1 = (Inr l, d2)"
    and sp: "store_epg_programmes (Some f) e l d2 = (Inr u, d')"
    by (auto simp: import_epg_data_def
             split: option.splits download.splits prod.splits sum.splits)
  from ok have dist: "distinct (map ec_id (epg_channels d))" by (simp add: db_ok_def)
  have ok1: "db_ok ?d1" by (rule clear_db_ok [OF ok])
  then have dist1: "distinct (map ec_id (epg_channels ?d1))"
    and refs1: "\<forall>p \<in> set (epg_channel_programmes ?d1).
        pr_epg_channel_id p \<in> ec_id ` set (epg_channels ?d1)"
    by (simp_all add: db_ok_def list_all_iff)
  have none1: "source_channels e ?d1 = []" by (rule clear_source_channels [OF dist])
  from store_epg_channels_success [OF dist1 none1 sc] obtain root_c items rows where
    root_c: "et_fromstring f = Some root_c"
    and items: "channel_items (iterfind root_c ''channel'') = Inr items"
    and l: "l = Some (map it_channel_id items)"
    and d2: "d2 = ?d1\<lparr>epg_channels := epg_channels ?d1 @ rows\<rparr>"
    and rows: "map item_of rows = items" "\<forall>r \<in> set rows. ec_epg_id r = e"
    and dist2: "distinct (map ec_id (epg_channels ?d1 @ rows))"
    by blast
  have src2: "source_channels e d2 = rows"
    using none1 rows(2) by (simp add: d2 source_channels_def filter_id_conv)
  have "map it_channel_id items = map ec_channel_id rows"
    using rows(1) [symmetric] by (simp add: item_of_def comp_def)
  then have ids: "set (map it_channel_id items) = ec_channel_id ` set (source_channels e d2)"
    by (simp add: src2)
  from sp l have sp': "store_epg_programmes (Some f) e (Some (map it_channel_id items)) d2
      = (Inr u, d')" by simp
  from store_epg_programmes_success [OF sp' ids] obtain root_p its prows where
    root_p: "et_parse f = Some root_p"
    and its: "accepted (channel_key e d2) (iterfind root_p ''programme'') = Inr its"
    and d': "d' = d2\<lparr>epg_channel_programmes := epg_channel_programmes d2 @ prows\<rparr>"
    and prows: "map (pr_id_update (\<lambda>i. None)) prows = its"
    by blast
  have chans': "epg_channels d' = epg_channels ?d1 @ rows" by (simp add: d' d2)
  have progs': "epg_channel_programmes d' = epg_channel_programmes ?d1 @ prows"
    by (simp add: d' d2)
  have src': "source_channels e d' = rows"
    using src2 by (simp add: source_channels_def d')
  have key': "channel_key e d' = channel_key e d2"
    by (simp add: channel_key_def d' fun_eq_iff)
  have new_key: "channel_key e d2 (pr_channel_id q) = Some (pr_epg_channel_id q)"
    if "q \<in> set prows" for q
  proof -
    from that prows have "pr_id_update (\<lambda>i. None) q \<in> set its" by force
    with accepted_keys [OF its] show ?thesis by force
  qed
  have new_ref: "pr_epg_channel_id q \<in> ec_id ` set rows" if "q \<in> set prows" for q
    using channel_key_Some [OF new_key [OF that]] src2 by force
  have old_ref: "pr_epg_channel_id p \<notin> ec_id ` set rows"
    if "p \<in> set (epg_channel_programmes ?d1)" for p
    using refs1 that dist2 by auto
  have "filter (\<lambda>p. pr_epg_channel_id p \<in> set (map ec_id rows)) (epg_channel_programmes ?d1) = []"
    using old_ref by (simp add: filter_empty_conv)
  moreover
  have "filter (\<lambda>p. pr_epg_channel_id p \<in> set (map ec_id rows)) prows = prows"
    using new_ref by (simp add: filter_id_conv)
  ultimately have srcp: "source_programmes e d' = prows"
    by (simp add: source_programmes_def src' progs')
  have ok': "db_ok d'"
    using dist2 refs1 new_ref by (auto simp: db_ok_def list_all_iff chans' progs')
  have epgs': "epgs d' = epgs d"
    by (simp add: d' d2 clear_epg_channel_data_def Let_def)
  from src net root_c root_p items rows(1) its prows ok' epgs' show ?thesis
    by (simp add: src' srcp key')
qed

text \<open>
  Claim C2. When a source is ingested twice, the second time with whatever content, the
  channel rows of the source are afterwards exactly the channel declarations of the
  second document, in document order, and its programme rows are exactly the programme
  objects that the second document yields under the keys of those channel rows; up to
  the primary keys, nothing else is stored for the source, so no row of the first
  ingestion is left.
\<close>

theorem reingestion_replaces:
  assumes "db_ok d"
    and "import_epg_data net1 e d = (None, d1)"
    and "import_epg_data net2 e d1 = (None, d2)"
  shows "\<exists>src f root_c root_p.
      read_config_one_epg d e = Some src \<and> net2 (epg_url src) = Fetched f
      \<and> et_fromstring f = Some root_c \<and> et_parse f = Some root_p
      \<and> channel_items (iterfind root_c ''channel'') = Inr (map item_of (source_channels e d2))
      \<and> accepted (channel_key e d2) (iterfind root_p ''programme'')
          = Inr (map (pr_id_update (\<lambda>i. None)) (source_programmes e d2))"
proof -
  from import_epg_data_success [OF assms(1,2)] have ok1: "db_ok d1" and same: "epgs d1 = epgs d"
    by auto
  then have "read_config_one_epg d1 e = read_config_one_epg d e"
    by (simp add: read_config_one_epg_def)
  with import_epg_data_success [OF ok1 assms(3)] show ?thesis by auto
qed

theorem reingestion_replaces_witness:
  "db_ok example_db
   \<and> import_epg_data good_net 1 example_db = (None, ingested_db)
   \<and> import_epg_data swapped_net 1 ingested_db = (None, reingested_db)
   \<and> map ec_channel_id (source_channels 1 ingested_db) = [Some ''ch1'']
   \<and> map pr_title (source_programmes 1 ingested_db) = [Some ''News'']
   \<and> map ec_channel_id (source_channels 1 reingested_db) = [Some ''ch2'']
   \<and> map pr_title (source_programmes 1 reingested_db) = [Some ''Weather'']
   \<and> (\<exists>src f root_c root_p.
        read_config_one_epg example_db 1 = Some src \<and> swapped_net (epg_url src) = Fetched f
        \<and> et_fromstring f = Some root_c \<and> et_parse f = Some root_p
        \<and> channel_items (iterfind root_c ''channel'')
            = Inr (map item_of (source_channels 1 reingested_db))
        \<and> accepted (channel_key 1 reingested_db) (iterfind root_p ''programme'')
            = Inr (map (pr_id_update (\<lambda>i. None)) (source_programmes 1 reingested_db)))"
proof -
  have ok: "db_ok example_db" by code_simp
  have first: "import_epg_data good_net 1 example_db = (None, ingested_db)" by code_simp
  have second: "import_epg_data swapped_net 1 ingested_db = (None, reingested_db)" by code_simp
  have before: "map ec_channel_id (source_channels 1 ingested_db) = [Some ''ch1'']"
    "map pr_title (source_programmes 1 ingested_db) = [Some ''News'']"
    by code_simp+
  have after: "map ec_channel_id (source_channels 1 reingested_db) = [Some ''ch2'']"
    "map pr_title (source_programmes 1 reingested_db) = [Some ''Weather'']"
    by code_simp+
  from reingestion_replaces [OF ok first second] ok first second before after
  show ?thesis by blast
qed





section \<open>Failures during ingestion\<close>

lemma import_loop_append:
  "import_loop net es1 d = (None, d1) \<Longrightarrow>
   import_loop net (es1 @ es2) d = import_loop net es2 d1"
  by (induction es1 arbitrary: d) (auto split: prod.splits option.splits)

text \<open>A step that raises has stored nothing.\<close>

lemma store_epg_channels_Inl:
  "store_epg_channels file e d = (Inl err, d1) \<Longrightarrow> d1 = d"
  by (auto simp: store_epg_channels_def split: option.splits sum.splits)

lemma store_epg_programmes_Inl:
  "store_epg_programmes file e l d = (Inl err, d1) \<Longrightarrow> d1 = d"
  by (auto simp: store_epg_programmes_def split: option.splits sum.splits prod.splits)

lemma source_programmes_cleared:
  assumes "db_ok d"
  shows "source_programmes e (clear_epg_channel_data e d) = []"
  using clear_source_channels [of d e] assms
  by (simp add: source_programmes_def db_ok_def)

lemma store_epg_channels_fresh:
  assumes ok: "db_ok d"
    and sc: "store_epg_channels (Some f) e (clear_epg_channel_data e d) = (Inr l, d2)"
  shows "source_programmes e d2 = []
       \<and> (\<exists>root items. et_fromstring f = Some root
             \<and> channel_items (iterfind root ''channel'') = Inr items
             \<and> map item_of (source_channels e d2) = items)"
proof -
  let ?d1 = "clear_epg_channel_data e d"
  from ok have dist: "distinct (map ec_id (epg_channels d))" by (simp add: db_ok_def)
  have ok1: "db_ok ?d1" by (rule clear_db_ok [OF ok])
  then have dist1: "distinct (map ec_id (epg_channels ?d1))"
    and refs1: "\<forall>p \<in> set (epg_channel_programmes ?d1).
        pr_epg_channel_id p \<in> ec_id ` set (epg_channels ?d1)"
    by (simp_all add: db_ok_def list_all_iff)
  have none1: "source_channels e ?d1 = []" by (rule clear_source_channels [OF dist])
  from store_epg_channels_success [OF dist1 none1 sc] obtain root items rows where
    root: "et_fromstring f = Some root"
    and items: "channel_items (iterfind root ''channel'') = Inr items"
    and d2: "d2 = ?d1\<lparr>epg_channels := epg_channels ?d1 @ rows\<rparr>"
    and rows: "map item_of rows = items" "\<forall>r \<in> set rows. ec_epg_id r = e"
    and dist2: "distinct (map ec_id (epg_channels ?d1 @ rows))"
    by blast
  have src2: "source_channels e d2 = rows"
    using none1 rows(2) by (simp add: d2 source_channels_def filter_id_conv)
  have "pr_epg_channel_id p \<notin> ec_id ` set rows"
    if "p \<in> set (epg_channel_programmes ?d1)" for p
    using refs1 that dist2 by auto
  then have "filter (\<lambda>p. pr_epg_channel_id p \<in> set (map ec_id rows))
      (epg_channel_programmes ?d1) = []"
    by (simp add: filter_empty_conv)
  then have "source_programmes e d2 = []"
    unfolding source_programmes_def src2 by (simp add: d2)
  with root items rows(1) src2 show ?thesis by simp
qed

text \<open>
  Claim C1, as amended. When the download of a source fails, \<^verbatim>\<open>import_epg_data\<close>
  raises before anything is deleted, and the stored rows are exactly the rows from
  before. Every later failure comes after \<^verbatim>\<open>clear_epg_channel_data\<close> has committed.
  When \<^verbatim>\<open>ET.fromstring\<close> rejects the document, what is left is the store with the rows
  of the source deleted. When \<^verbatim>\<open>ET.fromstring\<close> accepts it, the channel step stores its
  rows, and \<^verbatim>\<open>ET.parse\<close> rejects the file, what is left is the store of the channel
  step. In a consistent store, whatever raises after a download that succeeded, the
  source is left without programme rows, and its channel rows are either gone or those
  that the new document declares.
\<close>

theorem import_epg_data_failure:
  assumes src: "read_config_one_epg d e = Some src"
  shows "(net (epg_url src) = FetchFailed \<longrightarrow> import_epg_data net e d = (Some FetchError, d))
       \<and> (net (epg_url src) = Fetched f \<and> et_fromstring f = None \<longrightarrow>
            import_epg_data net e d = (Some ParseError, clear_epg_channel_data e d))
       \<and> (net (epg_url src) = Fetched f \<and> et_parse f = None
            \<and> store_epg_channels (Some f) e (clear_epg_channel_data e d) = (Inr l, d1) \<longrightarrow>
            import_epg_data net e d = (Some ParseError, d1))
       \<and> (db_ok d \<and> net (epg_url src) = Fetched f
            \<and> import_epg_data net e d = (Some err, d') \<longrightarrow>
            source_programmes e d' = []
            \<and> (source_channels e d' = []
                \<or> (\<exists>root items. et_fromstring f = Some root
                      \<and> channel_items (iterfind root ''channel'') = Inr items
                      \<and> map item_of (source_channels e d') = items)))"
proof -
  have fetch: "import_epg_data net e d = (Some FetchError, d)"
    if "net (epg_url src) = FetchFailed"
    using that src by (simp add: import_epg_data_def)
  have text_parse: "import_epg_data net e d = (Some ParseError, clear_epg_channel_data e d)"
    if "net (epg_url src) = Fetched f \<and> et_fromstring f = None"
    using that src by (simp add: import_epg_data_def store_epg_channels_def)
  have file_parse: "import_epg_data net e d = (Some ParseError, d1)"
    if "net (epg_url src) = Fetched f \<and> et_parse f = None
      \<and> store_epg_channels (Some f) e (clear_epg_channel_data e d) = (Inr l, d1)"
    using that src by (simp add: import_epg_data_def store_epg_programmes_def)
  have later: "source_programmes e d' = []
      \<and> (source_channels e d' = []
          \<or> (\<exists>root items. et_fromstring f = Some root
                \<and> channel_items (iterfind root ''channel'') = Inr items
                \<and> map item_of (source_channels e d') = items))"
    if a: "db_ok d \<and> net (epg_url src) = Fetched f
      \<and> import_epg_data net e d = (Some err, d')"
  proof -
    from a have ok: "db_ok d" and net: "net (epg_url src) = Fetched f"
      and imp: "import_epg_data net e d = (Some err, d')"
      by simp_all
    let ?d1 = "clear_epg_channel_data e d"
    from ok have none: "source_channels e ?d1 = []"
      by (simp add: clear_source_channels db_ok_def)
    show ?thesis
    proof (cases "store_epg_channels (Some f) e ?d1")
      case (Pair r d2)
      show ?thesis
      proof (cases r)
        case (Inl err1)
        with Pair have sc: "store_epg_channels (Some f) e ?d1 = (Inl err1, d2)" by simp
        from store_epg_channels_Inl [OF sc] have "d2 = ?d1" .
        moreover from imp src net sc have "d' = d2" by (simp add: import_epg_data_def)
        ultimately have "d' = ?d1" by simp
        with none source_programmes_cleared [OF ok] show ?thesis by simp
      next
        case (Inr l2)
        with Pair have sc: "store_epg_channels (Some f) e ?d1 = (Inr l2, d2)" by simp
        with imp src net obtain err2 d3 where
          sp: "store_epg_programmes (Some f) e l2 d2 = (Inl err2, d3)" and d3: "d' = d3"
          by (auto simp: import_epg_data_def split: prod.splits sum.splits)
        from store_epg_programmes_Inl [OF sp] d3 have "d' = d2" by simp
        with store_epg_channels_fresh [OF ok sc] show ?thesis by simp
      qed
    qed
  qed
  from fetch text_parse file_parse later show ?thesis by blast
qed

theorem import_epg_data_failure_witness:
  "import_epg_data down_net 1 ingested_db = (Some FetchError, ingested_db)
   \<and> map ec_channel_id (source_channels 1 ingested_db) = [Some ''ch1'']
   \<and> map pr_title (source_programmes 1 ingested_db) = [Some ''News'']
   \<and> import_epg_data garbled_net 1 ingested_db
       = (Some ParseError, clear_epg_channel_data 1 ingested_db)
   \<and> source_channels 1 (clear_epg_channel_data 1 ingested_db) = []
   \<and> import_epg_data torn_net 1 ingested_db = (Some ParseError, torn_db)
   \<and> map ec_channel_id (source_channels 1 torn_db) = [Some ''ch2'']
   \<and> source_programmes 1 torn_db = []"
proof -
  have src: "read_config_one_epg ingested_db 1 = Some source_one" by code_simp
  have ok: "db_ok ingested_db" by code_simp
  have down: "down_net (epg_url source_one) = FetchFailed" by code_simp
  have garbled: "garbled_net (epg_url source_one) = Fetched malformed_file
      \<and> et_fromstring malformed_file = None" by code_simp
  have torn: "torn_net (epg_url source_one) = Fetched torn_file \<and> et_parse torn_file = None
      \<and> store_epg_channels (Some torn_file) 1 (clear_epg_channel_data 1 ingested_db)
          = (Inr (Some [Some ''ch2'']), torn_db)" by code_simp
  have rows: "map ec_channel_id (source_channels 1 ingested_db) = [Some ''ch1'']"
    "map pr_title (source_programmes 1 ingested_db) = [Some ''News'']"
    "source_channels 1 (clear_epg_channel_data 1 ingested_db) = []"
    "map ec_channel_id (source_channels 1 torn_db) = [Some ''ch2'']"
    by code_simp+
  from import_epg_data_failure [OF src, where net = down_net] down
  have a: "import_epg_data down_net 1 ingested_db = (Some FetchError, ingested_db)" by blast
  from import_epg_data_failure [OF src, where net = garbled_net and f = malformed_file] garbled
  have b: "import_epg_data garbled_net 1 ingested_db
      = (Some ParseError, clear_epg_channel_data 1 ingested_db)" by blast
  from import_epg_data_failure
         [OF src, where net = torn_net and f = torn_file and l = "Some [Some ''ch2'']"
            and ?d1.0 = torn_db] torn
  have c: "import_epg_data torn_net 1 ingested_db = (Some ParseError, torn_db)" by blast
  from import_epg_data_failure
         [OF src, where net = torn_net and f = torn_file and err = ParseError and d' = torn_db]
       ok torn c
  have d: "source_programmes 1 torn_db = []" by blast
  from a b c d rows show ?thesis by simp
qed

text \<open>
  Claim C1 as it is written fails: source 1 is ingested, then ingested again with a
  document that does not parse. The second ingestion raises, and the channel rows that
  the first one stored are gone.
\<close>

theorem import_epg_data_not_atomic:
  "fst (import_epg_data garbled_net 1 (snd (import_epg_data good_net 1 example_db)))
     = Some ParseError
   \<and> source_channels 1 (snd (import_epg_data good_net 1 example_db)) \<noteq> []
   \<and> source_channels 1
       (snd (import_epg_data garbled_net 1 (snd (import_epg_data good_net 1 example_db)))) = []"
  by code_simp

text \<open>
  Claim C4, as amended. \<^verbatim>\<open>import_epg_data_for_all_epgs\<close> stops at the first source
  whose ingestion raises: the sources before it have been ingested, the exception
  escapes with the store as the failed ingestion left it, and the sources after it are
  not ingested.
\<close>

theorem batch_stops_at_first_failure:
  assumes "map epg_id (epgs d) = before @ e # after"
    and "import_loop net before d = (None, d1)"
    and "import_epg_data net e d1 = (Some err, d2)"
  shows "import_epg_data_for_all_epgs net d = (Some err, d2)"
  using assms import_loop_append [of net before d d1 "e # after"]
  by (simp add: import_epg_data_for_all_epgs_def)

theorem batch_stops_at_first_failure_witness:
  "import_epg_data_for_all_epgs middle_down_net three_sources_db
     = (Some FetchError, first_ingested_db)
   \<and> map ec_channel_id (source_channels 1 first_ingested_db) = [Some ''ch1'']
   \<and> map pr_title (source_programmes 1 first_ingested_db) = [Some ''News'']
   \<and> source_channels 3 first_ingested_db = []
   \<and> fst (import_epg_data middle_down_net 3 first_ingested_db) = None"
proof -
  have a: "map epg_id (epgs three_sources_db) = [1] @ 2 # [3]" by code_simp
  have b: "import_loop middle_down_net [1] three_sources_db = (None, first_ingested_db)"
    by code_simp
  have c: "import_epg_data middle_down_net 2 first_ingested_db
      = (Some FetchError, first_ingested_db)" by code_simp
  have rows: "map ec_channel_id (source_channels 1 first_ingested_db) = [Some ''ch1'']"
    "map pr_title (source_programmes 1 first_ingested_db) = [Some ''News'']"
    "source_channels 3 first_ingested_db = []"
    "fst (import_epg_data middle_down_net 3 first_ingested_db) = None"
    by code_simp+
  from batch_stops_at_first_failure [OF a b c] rows show ?thesis by simp
qed

text \<open>
  Claim C4 as it is written fails: with source 1 down, the batch run leaves source 2
  without rows, although ingesting source 2 on its own succeeds and stores a channel.
\<close>

theorem batch_not_isolated:
  "source_channels 2 (snd (import_epg_data_for_all_epgs down_net example_db)) = []
   \<and> fst (import_epg_data down_net 2 example_db) = None
   \<and> source_channels 2 (snd (import_epg_data down_net 2 example_db)) \<noteq> []"
  by code_simp

section \<open>Candidates for enrichment\<close>


lemmas enrich_defs =
  turn_def update_wrapper_def update_programme_with_online_data_def tmdb_acquire_def
  tmdb_check_def tmdb_done_def tmdb_response_def cache_tmdb_def google_stage_def
  google_acquire_def google_check_def google_apply_def google_response_def cache_google_def
  release_def

lemma tmdb_apply_title [simp]: "pr_title (tmdb_apply v p) = pr_title p"
  by (simp add: tmdb_apply_def Let_def split: option.splits)

lemma tmdb_apply_icon: "truthy (pr_icon_url p) \<Longrightarrow> truthy (pr_icon_url (tmdb_apply v p))"
  by (simp add: tmdb_apply_def Let_def split: option.splits)




















section \<open>Lookups and the cache\<close>






















lemma ctx_of_simps [simp]:
  "x_pc (ctx_of s i) = t_pc (ls_tasks s ! i)"
  "x_programme (ctx_of s i) = t_programme (ls_tasks s ! i)"
  "title_of (ctx_of s i) = pr_title (t_programme (ls_tasks s ! i))"
  "x_cache (ctx_of s i) = ls_cache s"
  "x_calls (ctx_of s i) = ls_calls s"
  by (simp_all add: ctx_of_def title_of_def)
































end
